theory Spec2Isabelle
  imports Main "HOL-Library.Multiset"
begin

section \<open>JavaScript values, errors and library calls\<close>

text \<open>
  The backend is JavaScript on Node. Strings are modelled as \<open>string\<close> (the UTF-8 bytes
  of the JavaScript string), numbers that the program only uses as integers as \<open>int\<close>
  (\<open>NaN\<close> is \<open>None\<close> of \<open>int option\<close>; \<open>parseInt\<close> rounds to the nearest double),
  \<open>null\<close> and \<open>undefined\<close> as \<open>None\<close>. A \<open>throw\<close> is the \<open>Inl\<close> of a sum,
  a \<open>try { ... } catch\<close> a case distinction on it. An \<open>async\<close> function is the
  function of its result: each request runs from its start to its response, and the
  interleaving of several requests is not modelled.
\<close>

record js_error =
  err_name :: string
  err_message :: string

definition Error :: "string \<Rightarrow> js_error" where
  "Error m = \<lparr>err_name = ''Error'', err_message = m\<rparr>"

definition TypeError :: "string \<Rightarrow> js_error" where
  "TypeError m = \<lparr>err_name = ''TypeError'', err_message = m\<rparr>"

text \<open>
  Functions of the platform that the repository calls and does not define: the WHATWG
  \<open>URLSearchParams\<close> parser, \<open>String.prototype.localeCompare\<close>, the digests of
  Node's \<open>crypto\<close> module, the two entry points of the \<open>jsonwebtoken\<close> package and
  \<open>Date.prototype.toISOString\<close>.
  They are parameters of the model, together with the environment variables the
  modules read when they are loaded.
\<close>

record jwt_payload =
  p_userId :: "int option"
  p_telegramId :: "int option"
  p_username :: "string option"
  p_firstName :: "string option"
  p_lastName :: "string option"
  p_isPremium :: "bool option"

record sign_options =
  expiresIn :: string
  sign_issuer :: string
  sign_audience :: string

record verify_options =
  issuer :: string
  audience :: string

record platform =
  env_BOT_TOKEN :: "string option"
  env_JWT_SECRET :: "string option"
  env_JWT_EXPIRES_IN :: "string option"
  urlSearchParams :: "string \<Rightarrow> (string \<times> string) list"
  localeCompare :: "string \<Rightarrow> string \<Rightarrow> int"
  hmacSha256 :: "string \<Rightarrow> string \<Rightarrow> string"
  sha256 :: "string \<Rightarrow> string"
  jwt_sign :: "jwt_payload \<Rightarrow> string option \<Rightarrow> sign_options \<Rightarrow> int \<Rightarrow> js_error + string"
  jwt_verify :: "string \<Rightarrow> string option \<Rightarrow> verify_options \<Rightarrow> int \<Rightarrow> js_error + jwt_payload"
  toISOString :: "int \<Rightarrow> string"

subsection \<open>Buffers, arrays and \<open>URLSearchParams\<close>\<close>

definition hex_digit :: "nat \<Rightarrow> char" where
  "hex_digit n = ''0123456789abcdef'' ! (n mod 16)"

text \<open>\<open>digest('hex')\<close>: two lower-case hexadecimal digits for each byte.\<close>

definition toHex :: "string \<Rightarrow> string" where
  "toHex bytes =
     concat (map (\<lambda>c. [hex_digit (of_char c div 16), hex_digit (of_char c mod 16)]) bytes)"

text \<open>\<open>params.get(name)\<close>: the value of the first pair with that name, else \<open>null\<close>.\<close>

fun URLSearchParams_get :: "(string \<times> string) list \<Rightarrow> string \<Rightarrow> string option" where
  "URLSearchParams_get [] name = None"
| "URLSearchParams_get ((k, v) # ps) name =
     (if k = name then Some v else URLSearchParams_get ps name)"

text \<open>\<open>params.delete(name)\<close>: removes every pair with that name.\<close>

definition URLSearchParams_delete :: "(string \<times> string) list \<Rightarrow> string \<Rightarrow> (string \<times> string) list" where
  "URLSearchParams_delete ps name = filter (\<lambda>(k, v). k \<noteq> name) ps"

text \<open>
  \<open>Array.prototype.sort(compareFn)\<close> is stable: an element moves in front of another
  only when the comparison function says it is smaller. Insertion from the right gives
  that order for every consistent comparison function.
\<close>

fun insert_sorted :: "('a \<Rightarrow> 'a \<Rightarrow> int) \<Rightarrow> 'a \<Rightarrow> 'a list \<Rightarrow> 'a list" where
  "insert_sorted compareFn x [] = [x]"
| "insert_sorted compareFn x (y # ys) =
     (if compareFn x y \<le> 0 then x # y # ys else y # insert_sorted compareFn x ys)"

definition Array_sort :: "('a \<Rightarrow> 'a \<Rightarrow> int) \<Rightarrow> 'a list \<Rightarrow> 'a list" where
  "Array_sort compareFn xs = foldr (insert_sorted compareFn) xs []"

fun Array_join :: "string \<Rightarrow> string list \<Rightarrow> string" where
  "Array_join sep [] = []"
| "Array_join sep [x] = x"
| "Array_join sep (x # y # ys) = x @ sep @ Array_join sep (y # ys)"

text \<open>\<open>String.prototype.split\<close> with a separator of one character.\<close>

fun String_split :: "char \<Rightarrow> string \<Rightarrow> string list" where
  "String_split sep [] = [[]]"
| "String_split sep (c # cs) =
     (if c = sep then [] # String_split sep cs
      else (case String_split sep cs of
              [] \<Rightarrow> [[c]]
            | x # xs \<Rightarrow> (c # x) # xs))"

text \<open>\<open>xs[i]\<close>: \<open>undefined\<close> outside the array.\<close>

definition Array_at :: "'a list \<Rightarrow> nat \<Rightarrow> 'a option" where
  "Array_at xs i = (if i < length xs then Some (xs ! i) else None)"

subsection \<open>\<open>parseInt\<close>\<close>

text \<open>
  The white space that \<open>parseInt\<close> skips is the \<open>WhiteSpace\<close> and
  \<open>LineTerminator\<close> of ECMAScript, here in UTF-8. One byte: TAB, LF, VT, FF, CR, SP.
  Two bytes: U+00A0. Three bytes: U+1680, U+2000 to U+200A, U+2028, U+2029, U+202F,
  U+205F, U+3000 and U+FEFF.
\<close>

definition whiteSpace1 :: "char \<Rightarrow> bool" where
  "whiteSpace1 a = (of_char a \<in> {9, 10, 11, 12, 13, 32 :: nat})"

definition whiteSpace2 :: "char \<Rightarrow> char \<Rightarrow> bool" where
  "whiteSpace2 a b = ((of_char a :: nat) = 0xC2 \<and> (of_char b :: nat) = 0xA0)"

definition whiteSpace3 :: "char \<Rightarrow> char \<Rightarrow> char \<Rightarrow> bool" where
  "whiteSpace3 a b c =
     (let x = (of_char a :: nat); y = (of_char b :: nat); z = (of_char c :: nat)
      in (x = 0xE1 \<and> y = 0x9A \<and> z = 0x80) \<or>
         (x = 0xE2 \<and> y = 0x80 \<and> ((0x80 \<le> z \<and> z \<le> 0x8A) \<or> z = 0xA8 \<or> z = 0xA9 \<or> z = 0xAF)) \<or>
         (x = 0xE2 \<and> y = 0x81 \<and> z = 0x9F) \<or>
         (x = 0xE3 \<and> y = 0x80 \<and> z = 0x80) \<or>
         (x = 0xEF \<and> y = 0xBB \<and> z = 0xBF))"

fun trimStart :: "string \<Rightarrow> string" where
  "trimStart (a # b # c # cs) =
     (if whiteSpace1 a then trimStart (b # c # cs)
      else if whiteSpace2 a b then trimStart (c # cs)
      else if whiteSpace3 a b c then trimStart cs
      else a # b # c # cs)"
| "trimStart [a, b] =
     (if whiteSpace1 a then trimStart [b]
      else if whiteSpace2 a b then []
      else [a, b])"
| "trimStart [a] = (if whiteSpace1 a then [] else [a])"
| "trimStart [] = []"

definition digitValue :: "char \<Rightarrow> nat option" where
  "digitValue c =
     (let n = (of_char c :: nat) in
      if 48 \<le> n \<and> n \<le> 57 then Some (n - 48)
      else if 97 \<le> n \<and> n \<le> 122 then Some (n - 87)
      else if 65 \<le> n \<and> n \<le> 90 then Some (n - 55)
      else None)"

text \<open>The longest prefix of digits of the radix, read as a number; \<open>NaN\<close> when it is empty.\<close>

fun parseDigits :: "nat \<Rightarrow> string \<Rightarrow> int option \<Rightarrow> int option" where
  "parseDigits radix [] acc = acc"
| "parseDigits radix (c # cs) acc =
     (case digitValue c of
        None \<Rightarrow> acc
      | Some d \<Rightarrow>
          if d < radix
          then parseDigits radix cs (Some ((case acc of None \<Rightarrow> 0 | Some a \<Rightarrow> a) * int radix + int d))
          else acc)"

definition parseUnsigned :: "string \<Rightarrow> int option" where
  "parseUnsigned s =
     (if take 2 s = ''0x'' \<or> take 2 s = ''0X'' then parseDigits 16 (drop 2 s) None
      else parseDigits 10 s None)"

text \<open>
  The Number for an integer: the nearest double, ties to the even significand. An
  integer of fewer than 54 bits is itself. A result beyond the largest double is
  \<open>Infinity\<close>, which is written \<open>2 ^ 1024\<close> here (and \<open>- 2 ^ 1024\<close> for
  \<open>-Infinity\<close>): it is not zero and larger than every double, as \<open>Infinity\<close> is.
\<close>

function bitLength :: "int \<Rightarrow> nat" where
  "bitLength n = (if n \<le> 0 then 0 else Suc (bitLength (n div 2)))"
  by pat_completeness auto
termination
  by (relation "measure nat") auto

definition toNumber :: "int \<Rightarrow> int" where
  "toNumber n =
     (if \<bar>n\<bar> < 9007199254740992 then n
      else
        let e = bitLength \<bar>n\<bar> - 53;
            q = \<bar>n\<bar> div 2 ^ e;
            r = \<bar>n\<bar> mod 2 ^ e;
            half = 2 ^ (e - 1);
            m = (if half < r \<or> (r = half \<and> odd q) then q + 1 else q)
        in if 2 ^ 1024 \<le> m * 2 ^ e then sgn n * 2 ^ 1024 else sgn n * (m * 2 ^ e))"

text \<open>
  \<open>parseInt(x)\<close> with no radix: \<open>null\<close> is read as the string \<open>null\<close>, leading white
  space is skipped, a sign is read, \<open>0x\<close> selects base sixteen, the digits are read
  as an integer, and the result is the Number for it.
\<close>

definition parseInt :: "string option \<Rightarrow> int option" where
  "parseInt x =
     (let s = trimStart (case x of None \<Rightarrow> ''null'' | Some s \<Rightarrow> s) in
      case s of
        [] \<Rightarrow> None
      | c # cs \<Rightarrow>
          if c = CHR ''-'' then map_option (\<lambda>n. toNumber (- n)) (parseUnsigned cs)
          else if c = CHR ''+'' then map_option toNumber (parseUnsigned cs)
          else map_option toNumber (parseUnsigned s))"

section \<open>utils/telegram.js\<close>

definition BOT_TOKEN :: "platform \<Rightarrow> string option" where
  "BOT_TOKEN P = env_BOT_TOKEN P"

record userData =
  ud_id :: "int option"
  ud_first_name :: "string option"
  ud_last_name :: "string option"
  ud_username :: "string option"
  ud_language_code :: "string option"
  ud_is_premium :: bool
  ud_allows_write_to_pm :: bool

text \<open>The object \<open>validateInitData\<close> returns; a field that the object lacks is \<open>None\<close>.\<close>

record validation =
  isValid :: bool
  v_user :: "userData option"
  v_auth_date :: "int option"
  v_query_id :: "string option"
  v_start_param :: "string option"
  v_error :: "string option"

definition newline :: string where
  "newline = [CHR 0x0A]"

text \<open>
  The entries without \<open>hash\<close>, sorted by \<open>a.localeCompare(b)\<close> on the keys, each
  written \<open>key=value\<close>, joined by line feeds.
\<close>

definition dataCheckString :: "platform \<Rightarrow> (string \<times> string) list \<Rightarrow> string" where
  "dataCheckString P params =
     Array_join newline
       (map (\<lambda>(key, val). key @ ''='' @ val)
         (Array_sort (\<lambda>(a, _) (b, _). localeCompare P a b) params))"

definition parseUserData :: "(string \<times> string) list \<Rightarrow> userData" where
  "parseUserData params =
     \<lparr>ud_id = parseInt (URLSearchParams_get params ''user.id''),
      ud_first_name = URLSearchParams_get params ''user.first_name'',
      ud_last_name = URLSearchParams_get params ''user.last_name'',
      ud_username = URLSearchParams_get params ''user.username'',
      ud_language_code = URLSearchParams_get params ''user.language_code'',
      ud_is_premium = (URLSearchParams_get params ''user.is_premium'' = Some ''true''),
      ud_allows_write_to_pm = (URLSearchParams_get params ''user.allows_write_to_pm'' = Some ''true'')\<rparr>"

text \<open>JavaScript truthiness of the two required fields: \<open>NaN\<close>, \<open>0\<close>, \<open>null\<close> and the empty string are falsy.\<close>

definition falsy_number :: "int option \<Rightarrow> bool" where
  "falsy_number n = (n = None \<or> n = Some 0)"

definition falsy_string :: "string option \<Rightarrow> bool" where
  "falsy_string s = (s = None \<or> s = Some [])"

text \<open>The message of the error that \<open>update(undefined)\<close> throws.\<close>

definition ERR_INVALID_ARG_TYPE :: string where
  "ERR_INVALID_ARG_TYPE =
     ''The '' @ [CHR 0x22] @ ''data'' @ [CHR 0x22] @
     '' argument must be of type string or an instance of Buffer, TypedArray, or DataView. Received undefined''"

text \<open>
  The body of the \<open>try\<close> block of \<open>validateInitData\<close>. \<open>crypto.createHmac(...).update(BOT_TOKEN)\<close>
  throws a \<open>TypeError\<close> when the environment variable is not set.
\<close>

definition validateInitData_try :: "platform \<Rightarrow> string option \<Rightarrow> js_error + validation" where
  "validateInitData_try P initData =
     (if falsy_string initData then Inl (Error ''Init data is required'')
      else
        let params = urlSearchParams P (the initData);
            hash = URLSearchParams_get params ''hash''
        in if falsy_string hash then Inl (Error ''Hash is missing from init data'')
           else
             let params = URLSearchParams_delete params ''hash'';
                 sortedParams = dataCheckString P params
             in case BOT_TOKEN P of
                  None \<Rightarrow> Inl (TypeError ERR_INVALID_ARG_TYPE)
                | Some token \<Rightarrow>
                    let secretKey = hmacSha256 P ''WebAppData'' token;
                        calculatedHash = toHex (hmacSha256 P secretKey sortedParams)
                    in if calculatedHash \<noteq> the hash then Inl (Error ''Hash validation failed'')
                       else
                         let userData = parseUserData params
                         in if falsy_number (ud_id userData) \<or> falsy_string (ud_first_name userData)
                            then Inl (Error ''Invalid user data'')
                            else Inr \<lparr>isValid = True,
                                      v_user = Some userData,
                                      v_auth_date = parseInt (URLSearchParams_get params ''auth_date''),
                                      v_query_id = URLSearchParams_get params ''query_id'',
                                      v_start_param = URLSearchParams_get params ''start_param'',
                                      v_error = None\<rparr>)"

text \<open>The \<open>catch\<close> block: every error becomes a result object with its message.\<close>

definition validateInitData :: "platform \<Rightarrow> string option \<Rightarrow> validation" where
  "validateInitData P initData =
     (case validateInitData_try P initData of
        Inl e \<Rightarrow> \<lparr>isValid = False, v_user = None, v_auth_date = None, v_query_id = None,
                  v_start_param = None, v_error = Some (err_message e)\<rparr>
      | Inr r \<Rightarrow> r)"

text \<open>
  \<open>isInitDataRecent\<close>: \<open>Date.now()\<close> is the argument \<open>now_ms\<close>; a comparison with
  \<open>NaN\<close> is false.
\<close>

definition isInitDataRecent :: "platform \<Rightarrow> string \<Rightarrow> int \<Rightarrow> bool" where
  "isInitDataRecent P initData now_ms =
     (let params = urlSearchParams P initData;
          authDate = parseInt (URLSearchParams_get params ''auth_date'');
          currentTime = now_ms div 1000;
          oneHour = 3600
      in case authDate of None \<Rightarrow> False | Some a \<Rightarrow> currentTime - a < oneHour)"

section \<open>utils/database.js\<close>

subsection \<open>The tables and the connection pool\<close>

text \<open>
  The three tables of \<open>database/schema.sql\<close>, with the columns the README lists.
  Times are milliseconds. \<open>NOW\<close> is the clock of the database server, \<open>Date_now\<close>
  the clock of the Node process. \<open>faults\<close> is the script of the environment: one entry
  for each coming call of \<open>pool.query\<close>, \<open>True\<close> when the server rejects that call
  (a lost connection, a violated constraint); past the end of the script no call is
  rejected. \<open>sent\<close> records what was handed to \<open>pool.query\<close>: the query text and the
  array of bound values.
\<close>

datatype sql_value = SqlNull | SqlInt int | SqlText string | SqlBool bool | SqlTimestamp int

record user_row =
  u_id :: int
  u_telegram_id :: int
  u_username :: "string option"
  u_first_name :: "string option"
  u_last_name :: "string option"
  u_language_code :: "string option"
  u_is_premium :: "bool option"
  u_created_at :: int
  u_updated_at :: int

record session_row =
  s_id :: int
  s_user_id :: int
  s_token_hash :: string
  s_expires_at :: int
  s_created_at :: int
  s_is_active :: bool

record activity_row =
  a_id :: int
  a_user_id :: int
  a_action :: string
  a_details :: string
  a_ip_address :: "string option"
  a_user_agent :: "string option"
  a_created_at :: int

text \<open>
  A row of a result: of \<open>users\<close>, of \<open>sessions\<close>, or of the join
  \<open>SELECT s.*, u.*\<close>.
\<close>

datatype row = UserRow user_row | SessionRow session_row | SessionUserRow session_row user_row

record query_result =
  rows :: "row list"
  rowCount :: nat

record world =
  users :: "user_row list"
  sessions :: "session_row list"
  user_activity :: "activity_row list"
  users_id_seq :: int
  sessions_id_seq :: int
  user_activity_id_seq :: int
  NOW :: int
  Date_now :: int
  faults :: "bool list"
  sent :: "(string \<times> sql_value list) list"

subsection \<open>The query texts\<close>

definition upsertUser_query :: string where
  "upsertUser_query =
     newline @ ''      INSERT INTO users (telegram_id, username, first_name, last_name, language_code, is_premium)'' @
     newline @ ''      VALUES ($1, $2, $3, $4, $5, $6)'' @
     newline @ ''      ON CONFLICT (telegram_id) '' @
     newline @ ''      DO UPDATE SET '' @
     newline @ ''        username = EXCLUDED.username,'' @
     newline @ ''        first_name = EXCLUDED.first_name,'' @
     newline @ ''        last_name = EXCLUDED.last_name,'' @
     newline @ ''        language_code = EXCLUDED.language_code,'' @
     newline @ ''        is_premium = EXCLUDED.is_premium,'' @
     newline @ ''        updated_at = CURRENT_TIMESTAMP'' @
     newline @ ''      RETURNING *'' @
     newline @ ''    ''"

definition getUserByTelegramId_query :: string where
  "getUserByTelegramId_query = ''SELECT * FROM users WHERE telegram_id = $1''"

definition getUserById_query :: string where
  "getUserById_query = ''SELECT * FROM users WHERE id = $1''"

definition createSession_query :: string where
  "createSession_query =
     newline @ ''      INSERT INTO sessions (user_id, token_hash, expires_at)'' @
     newline @ ''      VALUES ($1, $2, $3)'' @
     newline @ ''      RETURNING *'' @
     newline @ ''    ''"

definition getActiveSession_query :: string where
  "getActiveSession_query =
     newline @ ''      SELECT s.*, u.* '' @
     newline @ ''      FROM sessions s '' @
     newline @ ''      JOIN users u ON s.user_id = u.id '' @
     newline @ ''      WHERE s.token_hash = $1 AND s.is_active = true AND s.expires_at > NOW()'' @
     newline @ ''    ''"

definition invalidateSession_query :: string where
  "invalidateSession_query = ''UPDATE sessions SET is_active = false WHERE token_hash = $1''"

definition cleanExpiredSessions_query :: string where
  "cleanExpiredSessions_query = ''DELETE FROM sessions WHERE expires_at < NOW()''"

definition logActivity_query :: string where
  "logActivity_query =
     newline @ ''      INSERT INTO user_activity (user_id, action, details, ip_address, user_agent)'' @
     newline @ ''      VALUES ($1, $2, $3, $4, $5)'' @
     newline @ ''    ''"

subsection \<open>What the server does with each statement\<close>

definition text_param :: "sql_value \<Rightarrow> string option option" where
  "text_param v = (case v of SqlNull \<Rightarrow> Some None | SqlText t \<Rightarrow> Some (Some t) | _ \<Rightarrow> None)"

definition bool_param :: "sql_value \<Rightarrow> bool option option" where
  "bool_param v = (case v of SqlNull \<Rightarrow> Some None | SqlBool b \<Rightarrow> Some (Some b) | _ \<Rightarrow> None)"

text \<open>
  \<open>INSERT ... ON CONFLICT (telegram_id) DO UPDATE SET ... RETURNING *\<close>. The row
  proposed for insertion takes the next value of the \<open>id\<close> sequence before the
  conflict is looked for. With a conflict the columns of the \<open>SET\<close> list are
  overwritten in the row that has the \<open>telegram_id\<close>; without one the proposed row
  is appended.
\<close>

definition exec_upsertUser :: "sql_value list \<Rightarrow> world \<Rightarrow> (query_result \<times> world) option" where
  "exec_upsertUser params w =
     (case params of
        [SqlInt tid, p2, p3, p4, p5, p6] \<Rightarrow>
          (case (text_param p2, text_param p3, text_param p4, text_param p5, bool_param p6) of
             (Some un, Some fn, Some ln, Some lc, Some ip) \<Rightarrow>
               let new_id = users_id_seq w;
                   w1 = w\<lparr>users_id_seq := new_id + 1\<rparr>
               in if list_ex (\<lambda>r. u_telegram_id r = tid) (users w)
                  then
                    let users' = map (\<lambda>r. if u_telegram_id r = tid
                                            then r\<lparr>u_username := un, u_first_name := fn, u_last_name := ln,
                                                   u_language_code := lc, u_is_premium := ip,
                                                   u_updated_at := NOW w\<rparr>
                                            else r) (users w);
                        returning = filter (\<lambda>r. u_telegram_id r = tid) users'
                    in Some (\<lparr>rows = map UserRow returning, rowCount = length returning\<rparr>,
                             w1\<lparr>users := users'\<rparr>)
                  else
                    let r = \<lparr>u_id = new_id, u_telegram_id = tid, u_username = un, u_first_name = fn,
                             u_last_name = ln, u_language_code = lc, u_is_premium = ip,
                             u_created_at = NOW w, u_updated_at = NOW w\<rparr>
                    in Some (\<lparr>rows = [UserRow r], rowCount = 1\<rparr>, w1\<lparr>users := users w @ [r]\<rparr>)
           | _ \<Rightarrow> None)
      | _ \<Rightarrow> None)"

definition exec_getUserByTelegramId :: "sql_value list \<Rightarrow> world \<Rightarrow> (query_result \<times> world) option" where
  "exec_getUserByTelegramId params w =
     (case params of
        [SqlInt tid] \<Rightarrow>
          let found = filter (\<lambda>r. u_telegram_id r = tid) (users w)
          in Some (\<lparr>rows = map UserRow found, rowCount = length found\<rparr>, w)
      | [SqlNull] \<Rightarrow> Some (\<lparr>rows = [], rowCount = 0\<rparr>, w)
      | _ \<Rightarrow> None)"

definition exec_getUserById :: "sql_value list \<Rightarrow> world \<Rightarrow> (query_result \<times> world) option" where
  "exec_getUserById params w =
     (case params of
        [SqlInt uid] \<Rightarrow>
          let found = filter (\<lambda>r. u_id r = uid) (users w)
          in Some (\<lparr>rows = map UserRow found, rowCount = length found\<rparr>, w)
      | [SqlNull] \<Rightarrow> Some (\<lparr>rows = [], rowCount = 0\<rparr>, w)
      | _ \<Rightarrow> None)"

text \<open>\<open>INSERT INTO sessions ... RETURNING *\<close>: \<open>is_active\<close> takes its default \<open>TRUE\<close>.\<close>

definition exec_createSession :: "sql_value list \<Rightarrow> world \<Rightarrow> (query_result \<times> world) option" where
  "exec_createSession params w =
     (case params of
        [SqlInt uid, SqlText h, SqlTimestamp e] \<Rightarrow>
          let r = \<lparr>s_id = sessions_id_seq w, s_user_id = uid, s_token_hash = h, s_expires_at = e,
                   s_created_at = NOW w, s_is_active = True\<rparr>
          in Some (\<lparr>rows = [SessionRow r], rowCount = 1\<rparr>,
                   w\<lparr>sessions := sessions w @ [r], sessions_id_seq := sessions_id_seq w + 1\<rparr>)
      | _ \<Rightarrow> None)"

text \<open>
  \<open>SELECT s.*, u.* FROM sessions s JOIN users u ON s.user_id = u.id WHERE
  s.token_hash = $1 AND s.is_active = true AND s.expires_at > NOW()\<close>.
\<close>

definition exec_getActiveSession :: "sql_value list \<Rightarrow> world \<Rightarrow> (query_result \<times> world) option" where
  "exec_getActiveSession params w =
     (case params of
        [SqlText h] \<Rightarrow>
          let found = [SessionUserRow s u. s \<leftarrow> sessions w, u \<leftarrow> users w,
                         s_user_id s = u_id u \<and> s_token_hash s = h \<and> s_is_active s \<and> s_expires_at s > NOW w]
          in Some (\<lparr>rows = found, rowCount = length found\<rparr>, w)
      | [SqlNull] \<Rightarrow> Some (\<lparr>rows = [], rowCount = 0\<rparr>, w)
      | _ \<Rightarrow> None)"

definition exec_invalidateSession :: "sql_value list \<Rightarrow> world \<Rightarrow> (query_result \<times> world) option" where
  "exec_invalidateSession params w =
     (case params of
        [SqlText h] \<Rightarrow>
          Some (\<lparr>rows = [], rowCount = length (filter (\<lambda>s. s_token_hash s = h) (sessions w))\<rparr>,
                w\<lparr>sessions := map (\<lambda>s. if s_token_hash s = h then s\<lparr>s_is_active := False\<rparr> else s)
                                  (sessions w)\<rparr>)
      | [SqlNull] \<Rightarrow> Some (\<lparr>rows = [], rowCount = 0\<rparr>, w)
      | _ \<Rightarrow> None)"

definition exec_cleanExpiredSessions :: "sql_value list \<Rightarrow> world \<Rightarrow> (query_result \<times> world) option" where
  "exec_cleanExpiredSessions params w =
     (case params of
        [] \<Rightarrow>
          Some (\<lparr>rows = [], rowCount = length (filter (\<lambda>s. s_expires_at s < NOW w) (sessions w))\<rparr>,
                w\<lparr>sessions := filter (\<lambda>s. \<not> s_expires_at s < NOW w) (sessions w)\<rparr>)
      | _ \<Rightarrow> None)"

definition exec_logActivity :: "sql_value list \<Rightarrow> world \<Rightarrow> (query_result \<times> world) option" where
  "exec_logActivity params w =
     (case params of
        [SqlInt uid, SqlText action, SqlText details, p4, p5] \<Rightarrow>
          (case (text_param p4, text_param p5) of
             (Some ip, Some ua) \<Rightarrow>
               let r = \<lparr>a_id = user_activity_id_seq w, a_user_id = uid, a_action = action,
                        a_details = details, a_ip_address = ip, a_user_agent = ua,
                        a_created_at = NOW w\<rparr>
               in Some (\<lparr>rows = [], rowCount = 1\<rparr>,
                        w\<lparr>user_activity := user_activity w @ [r],
                          user_activity_id_seq := user_activity_id_seq w + 1\<rparr>)
           | _ \<Rightarrow> None)
      | _ \<Rightarrow> None)"

text \<open>The server knows the eight statements of this program; any other text is rejected.\<close>

definition execute :: "string \<Rightarrow> sql_value list \<Rightarrow> world \<Rightarrow> (query_result \<times> world) option" where
  "execute query params w =
     (if query = upsertUser_query then exec_upsertUser params w
      else if query = getUserByTelegramId_query then exec_getUserByTelegramId params w
      else if query = getUserById_query then exec_getUserById params w
      else if query = createSession_query then exec_createSession params w
      else if query = getActiveSession_query then exec_getActiveSession params w
      else if query = invalidateSession_query then exec_invalidateSession params w
      else if query = cleanExpiredSessions_query then exec_cleanExpiredSessions params w
      else if query = logActivity_query then exec_logActivity params w
      else None)"

definition pg_error :: js_error where
  "pg_error = \<lparr>err_name = ''error'', err_message = ''the database rejected the query''\<rparr>"

text \<open>
  \<open>pool.query(text, values)\<close>: the call is recorded, the next entry of the script is
  consumed, and the statement either is rejected as a whole or takes effect.
\<close>

definition next_rejected :: "world \<Rightarrow> bool" where
  "next_rejected w = (case faults w of [] \<Rightarrow> False | f # fs \<Rightarrow> f)"

definition pool_query :: "string \<Rightarrow> sql_value list \<Rightarrow> world \<Rightarrow> (js_error + query_result) \<times> world" where
  "pool_query query params w =
     (let w1 = w\<lparr>sent := sent w @ [(query, params)], faults := tl (faults w)\<rparr>
      in if next_rejected w then (Inl pg_error, w1)
         else (case execute query params w1 of
                 None \<Rightarrow> (Inl pg_error, w1)
               | Some (result, w2) \<Rightarrow> (Inr result, w2)))"

subsection \<open>userOperations, sessionOperations, activityOperations\<close>

definition number_value :: "int option \<Rightarrow> sql_value" where
  "number_value n = (case n of None \<Rightarrow> SqlText ''NaN'' | Some i \<Rightarrow> SqlInt i)"

definition int_value :: "int option \<Rightarrow> sql_value" where
  "int_value n = (case n of None \<Rightarrow> SqlNull | Some i \<Rightarrow> SqlInt i)"

definition text_value :: "string option \<Rightarrow> sql_value" where
  "text_value t = (case t of None \<Rightarrow> SqlNull | Some x \<Rightarrow> SqlText x)"

text \<open>
  Each operation awaits one \<open>pool.query\<close>; its \<open>catch\<close> logs the error and throws it
  again, so a rejected query is the \<open>Inl\<close> of the result. \<open>result.rows[0]\<close> is
  \<open>undefined\<close> when there is no row.
\<close>

definition upsertUser :: "userData \<Rightarrow> world \<Rightarrow> (js_error + row option) \<times> world" where
  "upsertUser telegramData w =
     (let params = [number_value (ud_id telegramData), text_value (ud_username telegramData),
                    text_value (ud_first_name telegramData), text_value (ud_last_name telegramData),
                    text_value (ud_language_code telegramData), SqlBool (ud_is_premium telegramData)]
      in case pool_query upsertUser_query params w of
           (Inl err, w') \<Rightarrow> (Inl err, w')
         | (Inr result, w') \<Rightarrow> (Inr (Array_at (rows result) 0), w'))"

definition getUserByTelegramId :: "int option \<Rightarrow> world \<Rightarrow> (js_error + row option) \<times> world" where
  "getUserByTelegramId telegramId w =
     (case pool_query getUserByTelegramId_query [int_value telegramId] w of
        (Inl err, w') \<Rightarrow> (Inl err, w')
      | (Inr result, w') \<Rightarrow> (Inr (Array_at (rows result) 0), w'))"

definition getUserById :: "int option \<Rightarrow> world \<Rightarrow> (js_error + row option) \<times> world" where
  "getUserById userId w =
     (case pool_query getUserById_query [int_value userId] w of
        (Inl err, w') \<Rightarrow> (Inl err, w')
      | (Inr result, w') \<Rightarrow> (Inr (Array_at (rows result) 0), w'))"

definition createSession :: "int option \<Rightarrow> string \<Rightarrow> int \<Rightarrow> world \<Rightarrow> (js_error + row option) \<times> world" where
  "createSession userId tokenHash expiresAt w =
     (case pool_query createSession_query [int_value userId, SqlText tokenHash, SqlTimestamp expiresAt] w of
        (Inl err, w') \<Rightarrow> (Inl err, w')
      | (Inr result, w') \<Rightarrow> (Inr (Array_at (rows result) 0), w'))"

definition getActiveSession :: "string \<Rightarrow> world \<Rightarrow> (js_error + row option) \<times> world" where
  "getActiveSession tokenHash w =
     (case pool_query getActiveSession_query [SqlText tokenHash] w of
        (Inl err, w') \<Rightarrow> (Inl err, w')
      | (Inr result, w') \<Rightarrow> (Inr (Array_at (rows result) 0), w'))"

definition invalidateSession :: "string \<Rightarrow> world \<Rightarrow> (js_error + bool) \<times> world" where
  "invalidateSession tokenHash w =
     (case pool_query invalidateSession_query [SqlText tokenHash] w of
        (Inl err, w') \<Rightarrow> (Inl err, w')
      | (Inr result, w') \<Rightarrow> (Inr True, w'))"

definition cleanExpiredSessions :: "world \<Rightarrow> (js_error + nat) \<times> world" where
  "cleanExpiredSessions w =
     (case pool_query cleanExpiredSessions_query [] w of
        (Inl err, w') \<Rightarrow> (Inl err, w')
      | (Inr result, w') \<Rightarrow> (Inr (rowCount result), w'))"

text \<open>
  \<open>JSON.stringify\<close> of the \<open>details\<close> objects the routes pass: flat objects whose
  values are strings without characters to escape.
\<close>

fun JSON_members :: "(string \<times> string) list \<Rightarrow> string list" where
  "JSON_members [] = []"
| "JSON_members ((k, v) # kvs) =
     ([CHR 0x22] @ k @ [CHR 0x22] @ '':'' @ [CHR 0x22] @ v @ [CHR 0x22]) # JSON_members kvs"

definition JSON_stringify :: "(string \<times> string) list \<Rightarrow> string" where
  "JSON_stringify details = ''{'' @ Array_join '','' (JSON_members details) @ ''}''"

text \<open>
  \<open>logActivity\<close>: the \<open>catch\<close> block logs the error and does not throw it again, so
  the promise resolves to \<open>undefined\<close> either way.
\<close>

definition logActivity ::
  "int option \<Rightarrow> string \<Rightarrow> (string \<times> string) list \<Rightarrow> string option \<Rightarrow> string option \<Rightarrow> world
    \<Rightarrow> (js_error + unit) \<times> world" where
  "logActivity userId action details ipAddress userAgent w =
     (case pool_query logActivity_query
             [int_value userId, SqlText action, SqlText (JSON_stringify details),
              text_value ipAddress, text_value userAgent] w of
        (Inl err, w') \<Rightarrow> (Inr (), w')
      | (Inr result, w') \<Rightarrow> (Inr (), w'))"

section \<open>utils/auth.js\<close>

definition JWT_SECRET :: "platform \<Rightarrow> string option" where
  "JWT_SECRET P = env_JWT_SECRET P"

text \<open>\<open>process.env.JWT_EXPIRES_IN || '7d'\<close>: an unset or empty variable gives the default.\<close>

definition JWT_EXPIRES_IN :: "platform \<Rightarrow> string" where
  "JWT_EXPIRES_IN P = (if falsy_string (env_JWT_EXPIRES_IN P) then ''7d'' else the (env_JWT_EXPIRES_IN P))"

text \<open>Both wrappers log an error of the library and throw it again.\<close>

definition generateToken :: "platform \<Rightarrow> jwt_payload \<Rightarrow> int \<Rightarrow> js_error + string" where
  "generateToken P payload now_ms =
     jwt_sign P payload (JWT_SECRET P)
       \<lparr>expiresIn = JWT_EXPIRES_IN P, sign_issuer = ''telegram-mini-app'',
        sign_audience = ''telegram-users''\<rparr> now_ms"

definition verifyToken :: "platform \<Rightarrow> string \<Rightarrow> int \<Rightarrow> js_error + jwt_payload" where
  "verifyToken P token now_ms =
     jwt_verify P token (JWT_SECRET P)
       \<lparr>issuer = ''telegram-mini-app'', audience = ''telegram-users''\<rparr> now_ms"

definition hashToken :: "platform \<Rightarrow> string \<Rightarrow> string" where
  "hashToken P token = toHex (sha256 P token)"

text \<open>
  Reading a column of a row object. In the row of \<open>SELECT s.*, u.*\<close> the columns
  \<open>id\<close> and \<open>created_at\<close> occur twice and the later one, of \<open>users\<close>, is the
  property of the object.
\<close>

fun row_id :: "row \<Rightarrow> int option" where
  "row_id (UserRow u) = Some (u_id u)"
| "row_id (SessionRow s) = Some (s_id s)"
| "row_id (SessionUserRow s u) = Some (u_id u)"

fun row_telegram_id :: "row \<Rightarrow> int option" where
  "row_telegram_id (UserRow u) = Some (u_telegram_id u)"
| "row_telegram_id (SessionRow s) = None"
| "row_telegram_id (SessionUserRow s u) = Some (u_telegram_id u)"

fun row_username :: "row \<Rightarrow> string option" where
  "row_username (UserRow u) = u_username u"
| "row_username (SessionRow s) = None"
| "row_username (SessionUserRow s u) = u_username u"

fun row_first_name :: "row \<Rightarrow> string option" where
  "row_first_name (UserRow u) = u_first_name u"
| "row_first_name (SessionRow s) = None"
| "row_first_name (SessionUserRow s u) = u_first_name u"

fun row_last_name :: "row \<Rightarrow> string option" where
  "row_last_name (UserRow u) = u_last_name u"
| "row_last_name (SessionRow s) = None"
| "row_last_name (SessionUserRow s u) = u_last_name u"

fun row_language_code :: "row \<Rightarrow> string option" where
  "row_language_code (UserRow u) = u_language_code u"
| "row_language_code (SessionRow s) = None"
| "row_language_code (SessionUserRow s u) = u_language_code u"

fun row_is_premium :: "row \<Rightarrow> bool option" where
  "row_is_premium (UserRow u) = u_is_premium u"
| "row_is_premium (SessionRow s) = None"
| "row_is_premium (SessionUserRow s u) = u_is_premium u"

fun row_created_at :: "row \<Rightarrow> int option" where
  "row_created_at (UserRow u) = Some (u_created_at u)"
| "row_created_at (SessionRow s) = Some (s_created_at s)"
| "row_created_at (SessionUserRow s u) = Some (u_created_at u)"

fun row_updated_at :: "row \<Rightarrow> int option" where
  "row_updated_at (UserRow u) = Some (u_updated_at u)"
| "row_updated_at (SessionRow s) = None"
| "row_updated_at (SessionUserRow s u) = Some (u_updated_at u)"

fun row_expires_at :: "row \<Rightarrow> int option" where
  "row_expires_at (UserRow u) = None"
| "row_expires_at (SessionRow s) = Some (s_expires_at s)"
| "row_expires_at (SessionUserRow s u) = Some (s_expires_at s)"

text \<open>\<open>createUserPayload(user)\<close>: reading \<open>user.id\<close> of \<open>undefined\<close> throws.\<close>

definition createUserPayload :: "row option \<Rightarrow> js_error + jwt_payload" where
  "createUserPayload user =
     (case user of
        None \<Rightarrow> Inl (TypeError ''Cannot read properties of undefined (reading 'id')'')
      | Some u \<Rightarrow>
          Inr \<lparr>p_userId = row_id u, p_telegramId = row_telegram_id u, p_username = row_username u,
               p_firstName = row_first_name u, p_lastName = row_last_name u,
               p_isPremium = row_is_premium u\<rparr>)"

subsection \<open>Requests and responses\<close>

datatype json = JNull | JBool bool | JNum int | JStr string | JObj "(string \<times> json) list"

definition json_num :: "int option \<Rightarrow> json" where
  "json_num n = (case n of None \<Rightarrow> JNull | Some i \<Rightarrow> JNum i)"

definition json_str :: "string option \<Rightarrow> json" where
  "json_str t = (case t of None \<Rightarrow> JNull | Some x \<Rightarrow> JStr x)"

definition json_bool :: "bool option \<Rightarrow> json" where
  "json_bool b = (case b of None \<Rightarrow> JNull | Some x \<Rightarrow> JBool x)"

record response =
  status :: nat
  body :: json

text \<open>
  What the routes read of a request: the \<open>Authorization\<close> header, \<open>req.body.initData\<close>,
  \<open>req.ip\<close> and the \<open>User-Agent\<close> header.
\<close>

record request =
  req_authorization :: "string option"
  req_body_initData :: "string option"
  req_ip :: "string option"
  req_user_agent :: "string option"

text \<open>What \<open>authenticateToken\<close> adds to the request before it calls \<open>next()\<close>.\<close>

record authenticated =
  req_user :: row
  req_session :: row
  req_tokenHash :: string

datatype middleware_result = Next authenticated | Respond response

subsection \<open>\<open>authenticateToken\<close>\<close>

definition authenticateToken_try ::
  "platform \<Rightarrow> request \<Rightarrow> world \<Rightarrow> (js_error + middleware_result) \<times> world" where
  "authenticateToken_try P req w =
     (let authHeader = req_authorization req;
          token = (if falsy_string authHeader then (case authHeader of None \<Rightarrow> None | Some h \<Rightarrow> Some h)
                   else Array_at (String_split (CHR '' '') (the authHeader)) 1)
      in if falsy_string token
         then (Inr (Respond \<lparr>status = 401,
                               body = JObj [(''error'', JStr ''Access token required''),
                                            (''message'', JStr ''Please provide a valid authentication token'')]\<rparr>), w)
         else
           (case verifyToken P (the token) (Date_now w) of
              Inl err \<Rightarrow> (Inl err, w)
            | Inr decoded \<Rightarrow>
                (case getUserById (p_userId decoded) w of
                   (Inl err, w1) \<Rightarrow> (Inl err, w1)
                 | (Inr None, w1) \<Rightarrow>
                     (Inr (Respond \<lparr>status = 401,
                                      body = JObj [(''error'', JStr ''User not found''),
                                                   (''message'', JStr ''The user associated with this token no longer exists'')]\<rparr>), w1)
                 | (Inr (Some user), w1) \<Rightarrow>
                     let tokenHash = hashToken P (the token)
                     in (case getActiveSession tokenHash w1 of
                           (Inl err, w2) \<Rightarrow> (Inl err, w2)
                         | (Inr None, w2) \<Rightarrow>
                             (Inr (Respond \<lparr>status = 401,
                                              body = JObj [(''error'', JStr ''Session expired''),
                                                           (''message'', JStr ''Your session has expired. Please login again'')]\<rparr>), w2)
                         | (Inr (Some session), w2) \<Rightarrow>
                             (Inr (Next \<lparr>req_user = user, req_session = session,
                                         req_tokenHash = tokenHash\<rparr>), w2)))))"

definition authenticateToken :: "platform \<Rightarrow> request \<Rightarrow> world \<Rightarrow> middleware_result \<times> world" where
  "authenticateToken P req w =
     (case authenticateToken_try P req w of
        (Inr r, w') \<Rightarrow> (r, w')
      | (Inl err, w') \<Rightarrow>
          if err_name err = ''JsonWebTokenError''
          then (Respond \<lparr>status = 401,
                          body = JObj [(''error'', JStr ''Invalid token''),
                                       (''message'', JStr ''The provided token is invalid'')]\<rparr>, w')
          else if err_name err = ''TokenExpiredError''
          then (Respond \<lparr>status = 401,
                          body = JObj [(''error'', JStr ''Token expired''),
                                       (''message'', JStr ''The provided token has expired'')]\<rparr>, w')
          else (Respond \<lparr>status = 500,
                          body = JObj [(''error'', JStr ''Authentication failed''),
                                       (''message'', JStr ''An error occurred during authentication'')]\<rparr>, w'))"

section \<open>server.js\<close>

definition internal_server_error :: response where
  "internal_server_error = \<lparr>status = 500, body = JObj [(''error'', JStr ''Internal server error'')]\<rparr>"

definition user_json :: "row \<Rightarrow> json" where
  "user_json u =
     JObj [(''id'', json_num (row_id u)), (''telegramId'', json_num (row_telegram_id u)),
           (''username'', json_str (row_username u)), (''firstName'', json_str (row_first_name u)),
           (''lastName'', json_str (row_last_name u)), (''isPremium'', json_bool (row_is_premium u))]"

text \<open>\<open>POST /api/auth/login\<close>: the body of the \<open>try\<close> block.\<close>

definition login_try :: "platform \<Rightarrow> request \<Rightarrow> world \<Rightarrow> (js_error + response) \<times> world" where
  "login_try P req w =
     (let initData = req_body_initData req
      in if falsy_string initData
         then (Inr \<lparr>status = 400, body = JObj [(''error'', JStr ''initData is required'')]\<rparr>, w)
         else
           let validation = validateInitData P initData
           in if \<not> isValid validation
              then (Inr \<lparr>status = 401,
                         body = JObj [(''error'', JStr ''Invalid init data''),
                                      (''message'', json_str (v_error validation))]\<rparr>, w)
              else if \<not> isInitDataRecent P (the initData) (Date_now w)
              then (Inr \<lparr>status = 401,
                         body = JObj [(''error'', JStr ''Expired init data''),
                                      (''message'', JStr ''Init data is too old. Please refresh the app.'')]\<rparr>, w)
              else
                (case v_user validation of
                   None \<Rightarrow> (Inl (TypeError ''Cannot destructure property 'id' of 'telegramData' as it is undefined.''), w)
                 | Some telegramData \<Rightarrow>
                     (case upsertUser telegramData w of
                        (Inl err, w1) \<Rightarrow> (Inl err, w1)
                      | (Inr user, w1) \<Rightarrow>
                          (case createUserPayload user of
                             Inl err \<Rightarrow> (Inl err, w1)
                           | Inr userPayload \<Rightarrow>
                               (case generateToken P userPayload (Date_now w1) of
                                  Inl err \<Rightarrow> (Inl err, w1)
                                | Inr token \<Rightarrow>
                                    let tokenHash = hashToken P token;
                                        expiresAt = Date_now w1 + 7 * 24 * 60 * 60 * 1000
                                    in (case createSession (row_id (the user)) tokenHash expiresAt w1 of
                                          (Inl err, w2) \<Rightarrow> (Inl err, w2)
                                        | (Inr created, w2) \<Rightarrow>
                                            (case logActivity (row_id (the user)) ''login''
                                                    [(''method'', ''telegram_webapp'')] (req_ip req) (req_user_agent req) w2 of
                                               (Inl err, w3) \<Rightarrow> (Inl err, w3)
                                             | (Inr logged, w3) \<Rightarrow>
                                                 (Inr \<lparr>status = 200,
                                                       body = JObj [(''success'', JBool True),
                                                                    (''message'', JStr ''Authentication successful''),
                                                                    (''token'', JStr token),
                                                                    (''user'', user_json (the user))]\<rparr>, w3))))))))"

definition login :: "platform \<Rightarrow> request \<Rightarrow> world \<Rightarrow> response \<times> world" where
  "login P req w =
     (case login_try P req w of
        (Inr res, w') \<Rightarrow> (res, w')
      | (Inl err, w') \<Rightarrow> (internal_server_error, w'))"

text \<open>\<open>GET /api/protected\<close>, behind \<open>authenticateToken\<close>.\<close>

definition protected_handler :: "platform \<Rightarrow> request \<Rightarrow> authenticated \<Rightarrow> world \<Rightarrow> response \<times> world" where
  "protected_handler P req a w =
     (case logActivity (row_id (req_user a)) ''access_protected_route''
             [(''route'', ''/api/protected'')] (req_ip req) (req_user_agent req) w of
        (Inl err, w1) \<Rightarrow> (internal_server_error, w1)
      | (Inr logged, w1) \<Rightarrow>
          (\<lparr>status = 200,
            body = JObj [(''success'', JBool True),
                         (''message'', JStr ''This is a protected route''),
                         (''data'', JObj [(''user'', user_json (req_user a)),
                                          (''session'', JObj [(''id'', json_num (row_id (req_session a))),
                                                              (''expiresAt'', json_num (row_expires_at (req_session a)))]),
                                          (''timestamp'', JStr (toISOString P (Date_now w1)))])]\<rparr>, w1))"

definition protected_route :: "platform \<Rightarrow> request \<Rightarrow> world \<Rightarrow> response \<times> world" where
  "protected_route P req w =
     (case authenticateToken P req w of
        (Respond res, w1) \<Rightarrow> (res, w1)
      | (Next a, w1) \<Rightarrow> protected_handler P req a w1)"

text \<open>\<open>POST /api/auth/logout\<close>, behind \<open>authenticateToken\<close>.\<close>

definition logout_handler :: "platform \<Rightarrow> request \<Rightarrow> authenticated \<Rightarrow> world \<Rightarrow> response \<times> world" where
  "logout_handler P req a w =
     (case invalidateSession (req_tokenHash a) w of
        (Inl err, w1) \<Rightarrow> (internal_server_error, w1)
      | (Inr done, w1) \<Rightarrow>
          (case logActivity (row_id (req_user a)) ''logout'' [(''method'', ''api'')]
                  (req_ip req) (req_user_agent req) w1 of
             (Inl err, w2) \<Rightarrow> (internal_server_error, w2)
           | (Inr logged, w2) \<Rightarrow>
               (\<lparr>status = 200,
                 body = JObj [(''success'', JBool True), (''message'', JStr ''Logout successful'')]\<rparr>, w2)))"

definition logout_route :: "platform \<Rightarrow> request \<Rightarrow> world \<Rightarrow> response \<times> world" where
  "logout_route P req w =
     (case authenticateToken P req w of
        (Respond res, w1) \<Rightarrow> (res, w1)
      | (Next a, w1) \<Rightarrow> logout_handler P req a w1)"

text \<open>The hourly timer: an error of \<open>cleanExpiredSessions\<close> is logged and dropped.\<close>

definition cleanup_tick :: "world \<Rightarrow> world" where
  "cleanup_tick w = snd (cleanExpiredSessions w)"

section \<open>A small platform on which the model runs\<close>

text \<open>
  Concrete library functions for evaluating the model: a byte-level
  \<open>application/x-www-form-urlencoded\<close> parser, a byte-wise string comparison, and
  small keyed checksums in place of the SHA-256 digests.
\<close>

definition hexValue :: "char \<Rightarrow> nat option" where
  "hexValue c = (case digitValue c of None \<Rightarrow> None | Some d \<Rightarrow> if d < 16 then Some d else None)"

fun percentDecode :: "string \<Rightarrow> string" where
  "percentDecode (c # h # l # cs) =
     (if c = CHR ''%''
      then (case (hexValue h, hexValue l) of
              (Some a, Some b) \<Rightarrow> char_of (16 * a + b) # percentDecode cs
            | _ \<Rightarrow> c # percentDecode (h # l # cs))
      else c # percentDecode (h # l # cs))"
| "percentDecode (c # cs) = c # percentDecode cs"
| "percentDecode [] = []"

definition plusToSpace :: "string \<Rightarrow> string" where
  "plusToSpace s = map (\<lambda>c. if c = CHR ''+'' then CHR '' '' else c) s"

definition parsePair :: "string \<Rightarrow> string \<times> string" where
  "parsePair s =
     (let name = takeWhile (\<lambda>c. c \<noteq> CHR ''='') s;
          val = drop 1 (dropWhile (\<lambda>c. c \<noteq> CHR ''='') s)
      in (percentDecode (plusToSpace name), percentDecode (plusToSpace val)))"

definition urlencoded_parse :: "string \<Rightarrow> (string \<times> string) list" where
  "urlencoded_parse s =
     map parsePair
       (filter (\<lambda>q. q \<noteq> [])
         (String_split (CHR ''&'') (if take 1 s = ''?'' then drop 1 s else s)))"

fun compareBytes :: "string \<Rightarrow> string \<Rightarrow> int" where
  "compareBytes [] [] = 0"
| "compareBytes [] (b # bs) = - 1"
| "compareBytes (a # as) [] = 1"
| "compareBytes (a # as) (b # bs) =
     (if (of_char a :: nat) < of_char b then - 1
      else if (of_char b :: nat) < of_char a then 1
      else compareBytes as bs)"

definition checksum :: "string \<Rightarrow> string" where
  "checksum s =
     (let h = fold (\<lambda>c h. (h * 31 + of_char c) mod 65536) s (7 :: nat)
      in [char_of (h div 256), char_of (h mod 256)])"

definition demo_hmac :: "string \<Rightarrow> string \<Rightarrow> string" where
  "demo_hmac k m = checksum (k @ [CHR 0x00] @ m)"

definition JsonWebTokenError :: "string \<Rightarrow> js_error" where
  "JsonWebTokenError m = \<lparr>err_name = ''JsonWebTokenError'', err_message = m\<rparr>"

definition demo_jwt_sign :: "jwt_payload \<Rightarrow> string option \<Rightarrow> sign_options \<Rightarrow> int \<Rightarrow> js_error + string" where
  "demo_jwt_sign p secret opts now =
     (case secret of
        None \<Rightarrow> Inl (Error ''secretOrPrivateKey must have a value'')
      | Some k \<Rightarrow>
          if p_userId p = Some 1 then Inr (''token-1.'' @ toHex (demo_hmac k (sign_issuer opts @ sign_audience opts)))
          else Inr (''token-x.'' @ toHex (demo_hmac k (sign_issuer opts @ sign_audience opts))))"

definition demo_jwt_verify :: "string \<Rightarrow> string option \<Rightarrow> verify_options \<Rightarrow> int \<Rightarrow> js_error + jwt_payload" where
  "demo_jwt_verify token secret opts now =
     (case secret of
        None \<Rightarrow> Inl (JsonWebTokenError ''secret or public key must be provided'')
      | Some k \<Rightarrow>
          if token = ''token-1.'' @ toHex (demo_hmac k (issuer opts @ audience opts))
          then Inr \<lparr>p_userId = Some 1, p_telegramId = Some 42, p_username = None,
                    p_firstName = Some ''Ann'', p_lastName = None, p_isPremium = Some False\<rparr>
          else Inl (JsonWebTokenError ''invalid signature''))"

definition demo_platform :: platform where
  "demo_platform =
     \<lparr>env_BOT_TOKEN = Some ''123:abc'',
      env_JWT_SECRET = Some ''s3cret'',
      env_JWT_EXPIRES_IN = None,
      urlSearchParams = urlencoded_parse,
      localeCompare = compareBytes,
      hmacSha256 = demo_hmac,
      sha256 = checksum,
      jwt_sign = demo_jwt_sign,
      jwt_verify = demo_jwt_verify,
      toISOString = (\<lambda>ms. ''1970-01-01T00:00:00.000Z'')\<rparr>"

text \<open>A database with one user, one live session of that user and one expired session.\<close>

definition demo_user :: user_row where
  "demo_user =
     \<lparr>u_id = 1, u_telegram_id = 42, u_username = None, u_first_name = Some ''Ann'',
      u_last_name = None, u_language_code = None, u_is_premium = Some False,
      u_created_at = 1690000000000, u_updated_at = 1690000000000\<rparr>"

definition demo_session_live :: session_row where
  "demo_session_live =
     \<lparr>s_id = 1, s_user_id = 1, s_token_hash = ''8ba0'', s_expires_at = 1700000200000,
      s_created_at = 1699999000000, s_is_active = True\<rparr>"

definition demo_session_expired :: session_row where
  "demo_session_expired =
     \<lparr>s_id = 2, s_user_id = 1, s_token_hash = ''0ld0'', s_expires_at = 1700000000000,
      s_created_at = 1690000000000, s_is_active = True\<rparr>"

definition demo_world :: world where
  "demo_world =
     \<lparr>users = [demo_user], sessions = [demo_session_live, demo_session_expired],
      user_activity = [], users_id_seq = 2, sessions_id_seq = 3, user_activity_id_seq = 1,
      NOW = 1700000100000, Date_now = 1700000100000, faults = [], sent = []\<rparr>"


text \<open>A request that carries the token of the live session.\<close>

definition demo_request :: request where
  "demo_request =
     \<lparr>req_authorization = Some ''Bearer token-1.4738'', req_body_initData = None,
      req_ip = Some ''203.0.113.7'', req_user_agent = Some ''curl''\<rparr>"

text \<open>Login requests: one with the init data of that user, one whose init data has no user.\<close>

definition demo_login_request :: request where
  "demo_login_request =
     \<lparr>req_authorization = None,
      req_body_initData = Some ''user.id=42&auth_date=1700000000&user.first_name=Ann&hash=7c7a'',
      req_ip = Some ''203.0.113.7'', req_user_agent = Some ''curl''\<rparr>"


text \<open>
  Init data with every field that \<open>validateInitData\<close> reads; its \<open>user.id\<close> is a
  no-break space followed by \<open>42\<close>.
\<close>

definition demo_initData_full :: string where
  "demo_initData_full =
     ''user.id=%C2%A042&user.first_name=Ann&user.last_name=Lee&user.username=ann'' @
     ''&user.language_code=en&user.is_premium=true&user.allows_write_to_pm=true'' @
     ''&auth_date=1700000000&query_id=Q1&start_param=go&hash=3092''"

section \<open>Notions used in the statements\<close>

text \<open>
  A comparison function is consistent when it is total and transitive as an order,
  which \<open>Array.prototype.sort\<close> requires for a defined result.
\<close>

definition consistent_comparator :: "('a \<Rightarrow> 'a \<Rightarrow> int) \<Rightarrow> bool" where
  "consistent_comparator f \<longleftrightarrow>
     (\<forall>a b. f a b \<le> 0 \<or> f b a \<le> 0) \<and>
     (\<forall>a b c. f a b \<le> 0 \<longrightarrow> f b c \<le> 0 \<longrightarrow> f a c \<le> 0)"

text \<open>The object the \<open>catch\<close> block of \<open>validateInitData\<close> returns.\<close>

definition invalid_result :: "string \<Rightarrow> validation" where
  "invalid_result message =
     \<lparr>isValid = False, v_user = None, v_auth_date = None, v_query_id = None,
      v_start_param = None, v_error = Some message\<rparr>"

text \<open>
  The hash comparison of \<open>validateInitData\<close> is reached and succeeds: the init data
  and its \<open>hash\<close> are not empty, the bot token is set, and the calculated hash is
  the hash received.
\<close>

definition hashComparisonSucceeds :: "platform \<Rightarrow> string \<Rightarrow> bool" where
  "hashComparisonSucceeds P s =
     (s \<noteq> [] \<and>
      (case URLSearchParams_get (urlSearchParams P s) ''hash'' of
         None \<Rightarrow> False
       | Some h \<Rightarrow>
           h \<noteq> [] \<and>
           (case BOT_TOKEN P of
              None \<Rightarrow> False
            | Some token \<Rightarrow>
                toHex (hmacSha256 P (hmacSha256 P ''WebAppData'' token)
                  (dataCheckString P (URLSearchParams_delete (urlSearchParams P s) ''hash''))) = h)))"

text \<open>The check of the required user fields succeeds.\<close>

definition userFieldsValid :: "platform \<Rightarrow> string \<Rightarrow> bool" where
  "userFieldsValid P s =
     (\<not> falsy_number (parseInt (URLSearchParams_get (urlSearchParams P s) ''user.id'')) \<and>
      \<not> falsy_string (URLSearchParams_get (urlSearchParams P s) ''user.first_name''))"

text \<open>Two worlds that differ in the tables at most.\<close>

definition same_connection :: "world \<Rightarrow> world \<Rightarrow> bool" where
  "same_connection w w' \<longleftrightarrow>
     sent w' = sent w \<and> faults w' = faults w \<and> NOW w' = NOW w \<and> Date_now w' = Date_now w"

text \<open>The rows the join of \<open>getActiveSession\<close> selects.\<close>

definition active_rows :: "string \<Rightarrow> world \<Rightarrow> row list" where
  "active_rows h w =
     [SessionUserRow s u. s \<leftarrow> sessions w, u \<leftarrow> users w,
        s_user_id s = u_id u \<and> s_token_hash s = h \<and> s_is_active s \<and> s_expires_at s > NOW w]"

text \<open>The query texts handed to \<open>pool.query\<close> so far.\<close>

definition query_texts :: "world \<Rightarrow> string list" where
  "query_texts w = map fst (sent w)"

text \<open>
  What the \<open>SET\<close> list of the upsert does to a row, and the row the upsert inserts
  (\<open>created_at\<close> and \<open>updated_at\<close> take their default, the time of the statement).
\<close>

definition overwrite :: "userData \<Rightarrow> int \<Rightarrow> user_row \<Rightarrow> user_row" where
  "overwrite td now r =
     r\<lparr>u_username := ud_username td, u_first_name := ud_first_name td,
       u_last_name := ud_last_name td, u_language_code := ud_language_code td,
       u_is_premium := Some (ud_is_premium td), u_updated_at := now\<rparr>"

definition fresh_user :: "userData \<Rightarrow> int \<Rightarrow> int \<Rightarrow> int \<Rightarrow> user_row" where
  "fresh_user td tid new_id now =
     \<lparr>u_id = new_id, u_telegram_id = tid, u_username = ud_username td,
      u_first_name = ud_first_name td, u_last_name = ud_last_name td,
      u_language_code = ud_language_code td, u_is_premium = Some (ud_is_premium td),
      u_created_at = now, u_updated_at = now\<rparr>"

text \<open>
  The second word of the \<open>Authorization\<close> header, as \<open>authenticateToken\<close> reads it
  (\<open>authHeader && authHeader.split(' ')[1]\<close>), and the six responses it sends.
\<close>

definition bearerToken :: "request \<Rightarrow> string option" where
  "bearerToken req =
     (if falsy_string (req_authorization req) then req_authorization req
      else Array_at (String_split (CHR '' '') (the (req_authorization req))) 1)"

definition access_token_required :: response where
  "access_token_required =
     \<lparr>status = 401,
      body = JObj [(''error'', JStr ''Access token required''),
                   (''message'', JStr ''Please provide a valid authentication token'')]\<rparr>"

definition invalid_token :: response where
  "invalid_token =
     \<lparr>status = 401,
      body = JObj [(''error'', JStr ''Invalid token''),
                   (''message'', JStr ''The provided token is invalid'')]\<rparr>"

definition token_expired :: response where
  "token_expired =
     \<lparr>status = 401,
      body = JObj [(''error'', JStr ''Token expired''),
                   (''message'', JStr ''The provided token has expired'')]\<rparr>"

definition authentication_failed :: response where
  "authentication_failed =
     \<lparr>status = 500,
      body = JObj [(''error'', JStr ''Authentication failed''),
                   (''message'', JStr ''An error occurred during authentication'')]\<rparr>"

definition user_not_found :: response where
  "user_not_found =
     \<lparr>status = 401,
      body = JObj [(''error'', JStr ''User not found''),
                   (''message'', JStr ''The user associated with this token no longer exists'')]\<rparr>"

definition session_expired :: response where
  "session_expired =
     \<lparr>status = 401,
      body = JObj [(''error'', JStr ''Session expired''),
                   (''message'', JStr ''Your session has expired. Please login again'')]\<rparr>"

section \<open>Properties of the init-data validator\<close>

subsection \<open>Sorting\<close>

lemma mset_insert_sorted: "mset (insert_sorted f x ys) = add_mset x (mset ys)"
  by (induction ys) auto

lemma mset_Array_sort: "mset (Array_sort f xs) = mset xs"
  by (induction xs) (auto simp: Array_sort_def mset_insert_sorted)

lemma set_insert_sorted: "set (insert_sorted f x ys) = insert x (set ys)"
  by (induction ys) auto

lemma sorted_insert_sorted:
  assumes "consistent_comparator f" and "sorted_wrt (\<lambda>a b. f a b \<le> 0) ys"
  shows "sorted_wrt (\<lambda>a b. f a b \<le> 0) (insert_sorted f x ys)"
  using assms(2)
proof (induction ys)
  case Nil
  then show ?case by simp
next
  case (Cons y ys)
  have total: "\<And>a b. f a b \<le> 0 \<or> f b a \<le> 0"
    and trans: "\<And>a b c. f a b \<le> 0 \<Longrightarrow> f b c \<le> 0 \<Longrightarrow> f a c \<le> 0"
    using assms(1) unfolding consistent_comparator_def by blast+
  show ?case
  proof (cases "f x y \<le> 0")
    case True
    then have "\<forall>z \<in> set ys. f x z \<le> 0"
      using Cons.prems trans by auto
    with True Cons.prems show ?thesis by simp
  next
    case False
    then have "f y x \<le> 0" using total [of x y] by simp
    with False Cons show ?thesis
      by (auto simp: set_insert_sorted)
  qed
qed

lemma sorted_Array_sort:
  "consistent_comparator f \<Longrightarrow> sorted_wrt (\<lambda>a b. f a b \<le> 0) (Array_sort f xs)"
  by (induction xs) (auto simp: Array_sort_def intro: sorted_insert_sorted)

lemma consistent_on_keys:
  "consistent_comparator f \<Longrightarrow> consistent_comparator (\<lambda>(a, _) (b, _). f a b)"
  unfolding consistent_comparator_def by (auto split: prod.splits)

lemma compareBytes_total: "compareBytes a b \<le> 0 \<or> compareBytes b a \<le> 0"
  by (induction a b rule: compareBytes.induct) auto

lemma compareBytes_trans:
  "compareBytes a b \<le> 0 \<Longrightarrow> compareBytes b c \<le> 0 \<Longrightarrow> compareBytes a c \<le> 0"
proof (induction a b arbitrary: c rule: compareBytes.induct)
  case 1
  then show ?case by simp
next
  case (2 b bs)
  then show ?case by (cases c) auto
next
  case (3 a as)
  then show ?case by simp
next
  case (4 a as b bs)
  show ?case
  proof (cases c)
    case Nil
    with 4 show ?thesis by simp
  next
    case (Cons x xs)
    show ?thesis
    proof (cases "(of_char a :: nat) < of_char b")
      case True
      with 4 Cons show ?thesis by (auto split: if_splits)
    next
      case False
      with 4 Cons show ?thesis by (auto split: if_splits)
    qed
  qed
qed

lemma consistent_compareBytes: "consistent_comparator compareBytes"
  unfolding consistent_comparator_def
  using compareBytes_total compareBytes_trans by blast

subsection \<open>Evaluating the small platform\<close>

lemma demo_platform_simps:
  "BOT_TOKEN demo_platform = Some ''123:abc''"
  "JWT_SECRET demo_platform = Some ''s3cret''"
  "urlSearchParams demo_platform = urlencoded_parse"
  "localeCompare demo_platform = compareBytes"
  "hmacSha256 demo_platform = demo_hmac"
  "sha256 demo_platform = checksum"
  "jwt_sign demo_platform = demo_jwt_sign"
  "jwt_verify demo_platform = demo_jwt_verify"
  by (simp_all add: demo_platform_def BOT_TOKEN_def JWT_SECRET_def)

lemma demo_parse:
  "urlencoded_parse ''user.id=42&auth_date=1700000000&user.first_name=Ann&hash=7c7a'' =
     [(''user.id'', ''42''), (''auth_date'', ''1700000000''), (''user.first_name'', ''Ann''),
      (''hash'', ''7c7a'')]"
  by code_simp

lemma demo_dataCheckString:
  "dataCheckString demo_platform
     [(''user.id'', ''42''), (''auth_date'', ''1700000000''), (''user.first_name'', ''Ann'')] =
   ''auth_date=1700000000'' @ newline @ ''user.first_name=Ann'' @ newline @ ''user.id=42''"
  unfolding dataCheckString_def demo_platform_simps by code_simp

lemma demo_calculatedHash:
  "toHex (demo_hmac (demo_hmac ''WebAppData'' ''123:abc'')
     (dataCheckString demo_platform
        [(''user.id'', ''42''), (''auth_date'', ''1700000000''), (''user.first_name'', ''Ann'')])) =
   ''7c7a''"
  unfolding demo_dataCheckString
  by (simp add: demo_hmac_def checksum_def toHex_def hex_digit_def newline_def)

lemma demo_parseInt:
  "parseInt (Some ''42'') = Some 42"
  "parseInt (Some ''1700000000'') = Some 1700000000"
  "parseInt None = None"
  by code_simp+

lemma demo_valid:
  "isValid (validateInitData demo_platform
     (Some ''user.id=42&auth_date=1700000000&user.first_name=Ann&hash=7c7a''))"
  by (simp add: validateInitData_def validateInitData_try_def demo_platform_simps demo_parse
      URLSearchParams_delete_def demo_calculatedHash parseUserData_def demo_parseInt
      falsy_number_def falsy_string_def)

subsection \<open>The hash is the HMAC of the data-check string\<close>

lemma validateInitData_valid_try:
  "isValid (validateInitData P x) \<Longrightarrow> validateInitData_try P x = Inr (validateInitData P x)"
  by (auto simp: validateInitData_def split: sum.splits)

text \<open>
  C1. When \<open>validateInitData\<close> reports \<open>isValid\<close> on an init-data string with a
  \<open>hash\<close> parameter, the bot token is set and that hash is the hexadecimal
  HMAC-SHA256, keyed with the HMAC-SHA256 of the bot token under the key
  \<open>WebAppData\<close>, of a string built as follows: the pairs other than \<open>hash\<close>,
  each once, ordered by \<open>localeCompare\<close> on the keys, written \<open>key=value\<close>
  and joined by line feeds.
\<close>

theorem validateInitData_valid_only_if_hmac:
  assumes cmp: "consistent_comparator (localeCompare P)"
    and hash: "URLSearchParams_get (urlSearchParams P initData) ''hash'' = Some hash"
    and valid: "isValid (validateInitData P (Some initData))"
  shows "\<exists>token pairs.
      BOT_TOKEN P = Some token \<and>
      mset pairs = mset (filter (\<lambda>(k, v). k \<noteq> ''hash'') (urlSearchParams P initData)) \<and>
      sorted_wrt (\<lambda>a b. localeCompare P (fst a) (fst b) \<le> 0) pairs \<and>
      hash = toHex (hmacSha256 P (hmacSha256 P ''WebAppData'' token)
               (Array_join newline (map (\<lambda>(k, v). k @ ''='' @ v) pairs)))"
proof -
  let ?params = "URLSearchParams_delete (urlSearchParams P initData) ''hash''"
  let ?cmp = "\<lambda>(a, _) (b, _). localeCompare P a b"
  let ?pairs = "Array_sort ?cmp ?params"
  from valid have ok: "validateInitData_try P (Some initData) = Inr (validateInitData P (Some initData))"
    by (rule validateInitData_valid_try)
  then obtain token where tok: "BOT_TOKEN P = Some token"
    and eq: "toHex (hmacSha256 P (hmacSha256 P ''WebAppData'' token) (dataCheckString P ?params)) = hash"
    using hash
    by (auto simp: validateInitData_try_def Let_def split: if_splits option.splits)
  have "sorted_wrt (\<lambda>a b. ?cmp a b \<le> 0) ?pairs"
    using cmp by (intro sorted_Array_sort consistent_on_keys)
  then have srt: "sorted_wrt (\<lambda>a b. localeCompare P (fst a) (fst b) \<le> 0) ?pairs"
    by (simp add: case_prod_beta)
  have ms: "mset ?pairs = mset (filter (\<lambda>(k, v). k \<noteq> ''hash'') (urlSearchParams P initData))"
    by (simp add: mset_Array_sort URLSearchParams_delete_def)
  from tok eq srt ms show ?thesis
    unfolding dataCheckString_def by blast
qed

theorem validateInitData_valid_only_if_hmac_witness:
  "isValid (validateInitData demo_platform
      (Some ''user.id=42&auth_date=1700000000&user.first_name=Ann&hash=7c7a'')) \<and>
   (\<exists>token pairs.
      BOT_TOKEN demo_platform = Some token \<and>
      mset pairs = mset [(''user.id'', ''42''), (''auth_date'', ''1700000000''), (''user.first_name'', ''Ann'')] \<and>
      sorted_wrt (\<lambda>a b. compareBytes (fst a) (fst b) \<le> 0) pairs \<and>
      ''7c7a'' = toHex (demo_hmac (demo_hmac ''WebAppData'' token)
               (Array_join newline (map (\<lambda>(k, v). k @ ''='' @ v) pairs))))"
proof -
  let ?s = "''user.id=42&auth_date=1700000000&user.first_name=Ann&hash=7c7a''"
  have c: "consistent_comparator (localeCompare demo_platform)"
    by (simp add: demo_platform_simps consistent_compareBytes)
  have h: "URLSearchParams_get (urlSearchParams demo_platform ?s) ''hash'' = Some ''7c7a''"
    by (simp add: demo_platform_simps demo_parse)
  have v: "isValid (validateInitData demo_platform (Some ?s))"
    by (rule demo_valid)
  show ?thesis
    using v validateInitData_valid_only_if_hmac [OF c h v]
    by (simp add: demo_platform_simps demo_parse)
qed

subsection \<open>The validator always returns a result object\<close>

lemma validateInitData_caught:
  "validateInitData_try P x = Inl e \<Longrightarrow> validateInitData P x = invalid_result (err_message e)"
  by (simp add: validateInitData_def invalid_result_def)

lemma validateInitData_try_shape:
  "validateInitData_try P x = Inr r \<Longrightarrow> isValid r \<and> v_user r \<noteq> None \<and> v_error r = None"
  by (auto simp: validateInitData_try_def Let_def split: if_splits option.splits)

lemma URLSearchParams_get_delete:
  "k \<noteq> name \<Longrightarrow> URLSearchParams_get (URLSearchParams_delete ps name) k = URLSearchParams_get ps k"
  by (induction ps) (auto simp: URLSearchParams_delete_def)

lemma valid_result:
  "isValid (validateInitData P (Some s)) \<Longrightarrow>
   validateInitData P (Some s) =
     \<lparr>isValid = True,
      v_user = Some (parseUserData (URLSearchParams_delete (urlSearchParams P s) ''hash'')),
      v_auth_date = parseInt (URLSearchParams_get (URLSearchParams_delete (urlSearchParams P s) ''hash'') ''auth_date''),
      v_query_id = URLSearchParams_get (URLSearchParams_delete (urlSearchParams P s) ''hash'') ''query_id'',
      v_start_param = URLSearchParams_get (URLSearchParams_delete (urlSearchParams P s) ''hash'') ''start_param'',
      v_error = None\<rparr>"
  by (auto simp: validateInitData_def validateInitData_try_def Let_def
      split: option.splits if_splits)

lemma valid_parsed_user:
  assumes "isValid (validateInitData P (Some s))"
  shows "\<exists>u. v_user (validateInitData P (Some s)) = Some u \<and>
          ud_id u = parseInt (URLSearchParams_get (urlSearchParams P s) ''user.id'') \<and>
          ud_first_name u = URLSearchParams_get (urlSearchParams P s) ''user.first_name'' \<and>
          ud_last_name u = URLSearchParams_get (urlSearchParams P s) ''user.last_name'' \<and>
          ud_username u = URLSearchParams_get (urlSearchParams P s) ''user.username'' \<and>
          ud_language_code u = URLSearchParams_get (urlSearchParams P s) ''user.language_code'' \<and>
          ud_is_premium u = (URLSearchParams_get (urlSearchParams P s) ''user.is_premium'' = Some ''true'') \<and>
          ud_allows_write_to_pm u =
            (URLSearchParams_get (urlSearchParams P s) ''user.allows_write_to_pm'' = Some ''true'')"
  by (simp add: valid_result [OF assms] parseUserData_def URLSearchParams_get_delete)

lemma valid_other_fields:
  assumes "isValid (validateInitData P (Some s))"
  shows "v_auth_date (validateInitData P (Some s)) =
           parseInt (URLSearchParams_get (urlSearchParams P s) ''auth_date'') \<and>
         v_query_id (validateInitData P (Some s)) = URLSearchParams_get (urlSearchParams P s) ''query_id'' \<and>
         v_start_param (validateInitData P (Some s)) =
           URLSearchParams_get (urlSearchParams P s) ''start_param'' \<and>
         v_error (validateInitData P (Some s)) = None"
  by (simp add: valid_result [OF assms] URLSearchParams_get_delete)

text \<open>
  C4. \<open>validateInitData\<close> returns a result object for every input: either
  \<open>isValid\<close> is true and the object carries the parsed user and no error, or it is
  the object of the \<open>catch\<close> block, with \<open>isValid\<close> false and an error message.
  On success the user of the object has the seven fields as the parameters
  \<open>user.id\<close> (through \<open>parseInt\<close>), \<open>user.first_name\<close>, \<open>user.last_name\<close>,
  \<open>user.username\<close>, \<open>user.language_code\<close>, \<open>user.is_premium\<close> and
  \<open>user.allows_write_to_pm\<close> (each of the last two true when the parameter is the
  string \<open>true\<close>) give them, and \<open>auth_date\<close>, \<open>query_id\<close> and \<open>start_param\<close>
  are those of the parameters.
  \<open>null\<close> and the empty string give \<open>Init data is required\<close>, an input without
  \<open>hash\<close> gives \<open>Hash is missing from init data\<close>, a hash that differs from the
  calculated one gives \<open>Hash validation failed\<close>, and an input in which
  \<open>user.id\<close> is missing, not a number or zero, or \<open>user.first_name\<close> is missing or
  empty, is never valid.
\<close>

theorem validateInitData_never_throws:
  "((isValid (validateInitData P x) \<and> v_user (validateInitData P x) \<noteq> None \<and>
       v_error (validateInitData P x) = None) \<or>
    (\<exists>message. validateInitData P x = invalid_result message)) \<and>
   validateInitData P None = invalid_result ''Init data is required'' \<and>
   validateInitData P (Some []) = invalid_result ''Init data is required'' \<and>
   (s \<noteq> [] \<and> URLSearchParams_get (urlSearchParams P s) ''hash'' = None \<longrightarrow>
      validateInitData P (Some s) = invalid_result ''Hash is missing from init data'') \<and>
   (s \<noteq> [] \<and> URLSearchParams_get (urlSearchParams P s) ''hash'' = Some h \<and> h \<noteq> [] \<and>
    BOT_TOKEN P = Some token \<and>
    h \<noteq> toHex (hmacSha256 P (hmacSha256 P ''WebAppData'' token)
                (dataCheckString P (URLSearchParams_delete (urlSearchParams P s) ''hash''))) \<longrightarrow>
      validateInitData P (Some s) = invalid_result ''Hash validation failed'') \<and>
   (falsy_number (parseInt (URLSearchParams_get (urlSearchParams P s) ''user.id'')) \<or>
    falsy_string (URLSearchParams_get (urlSearchParams P s) ''user.first_name'') \<longrightarrow>
      (\<exists>message. validateInitData P (Some s) = invalid_result message)) \<and>
   (isValid (validateInitData P (Some s)) \<longrightarrow>
      (\<exists>u. v_user (validateInitData P (Some s)) = Some u \<and>
          ud_id u = parseInt (URLSearchParams_get (urlSearchParams P s) ''user.id'') \<and>
          ud_first_name u = URLSearchParams_get (urlSearchParams P s) ''user.first_name'' \<and>
          ud_last_name u = URLSearchParams_get (urlSearchParams P s) ''user.last_name'' \<and>
          ud_username u = URLSearchParams_get (urlSearchParams P s) ''user.username'' \<and>
          ud_language_code u = URLSearchParams_get (urlSearchParams P s) ''user.language_code'' \<and>
          ud_is_premium u = (URLSearchParams_get (urlSearchParams P s) ''user.is_premium'' = Some ''true'') \<and>
          ud_allows_write_to_pm u =
            (URLSearchParams_get (urlSearchParams P s) ''user.allows_write_to_pm'' = Some ''true'')) \<and>
      v_auth_date (validateInitData P (Some s)) =
        parseInt (URLSearchParams_get (urlSearchParams P s) ''auth_date'') \<and>
      v_query_id (validateInitData P (Some s)) = URLSearchParams_get (urlSearchParams P s) ''query_id'' \<and>
      v_start_param (validateInitData P (Some s)) =
        URLSearchParams_get (urlSearchParams P s) ''start_param'' \<and>
      v_error (validateInitData P (Some s)) = None)"
proof (intro conjI impI)
  assume v: "isValid (validateInitData P (Some s))"
  from valid_parsed_user [OF v]
  show "\<exists>u. v_user (validateInitData P (Some s)) = Some u \<and>
          ud_id u = parseInt (URLSearchParams_get (urlSearchParams P s) ''user.id'') \<and>
          ud_first_name u = URLSearchParams_get (urlSearchParams P s) ''user.first_name'' \<and>
          ud_last_name u = URLSearchParams_get (urlSearchParams P s) ''user.last_name'' \<and>
          ud_username u = URLSearchParams_get (urlSearchParams P s) ''user.username'' \<and>
          ud_language_code u = URLSearchParams_get (urlSearchParams P s) ''user.language_code'' \<and>
          ud_is_premium u = (URLSearchParams_get (urlSearchParams P s) ''user.is_premium'' = Some ''true'') \<and>
          ud_allows_write_to_pm u =
            (URLSearchParams_get (urlSearchParams P s) ''user.allows_write_to_pm'' = Some ''true'')" .
  from valid_other_fields [OF v]
  show "v_auth_date (validateInitData P (Some s)) =
        parseInt (URLSearchParams_get (urlSearchParams P s) ''auth_date'')"
    and "v_query_id (validateInitData P (Some s)) = URLSearchParams_get (urlSearchParams P s) ''query_id''"
    and "v_start_param (validateInitData P (Some s)) =
        URLSearchParams_get (urlSearchParams P s) ''start_param''"
    and "v_error (validateInitData P (Some s)) = None"
    by simp_all
next
  show "(isValid (validateInitData P x) \<and> v_user (validateInitData P x) \<noteq> None \<and>
       v_error (validateInitData P x) = None) \<or>
    (\<exists>message. validateInitData P x = invalid_result message)"
  proof (cases "validateInitData_try P x")
    case (Inl e)
    then have "validateInitData P x = invalid_result (err_message e)"
      by (rule validateInitData_caught)
    then show ?thesis by blast
  next
    case (Inr r)
    then have "validateInitData P x = r" by (simp add: validateInitData_def)
    with validateInitData_try_shape [OF Inr] show ?thesis by simp
  qed
next
  show "validateInitData P None = invalid_result ''Init data is required''"
    by (simp add: validateInitData_def validateInitData_try_def falsy_string_def invalid_result_def Error_def)
next
  show "validateInitData P (Some []) = invalid_result ''Init data is required''"
    by (simp add: validateInitData_def validateInitData_try_def falsy_string_def invalid_result_def Error_def)
next
  assume "s \<noteq> [] \<and> URLSearchParams_get (urlSearchParams P s) ''hash'' = None"
  then show "validateInitData P (Some s) = invalid_result ''Hash is missing from init data''"
    by (simp add: validateInitData_def validateInitData_try_def falsy_string_def invalid_result_def Error_def)
next
  assume "s \<noteq> [] \<and> URLSearchParams_get (urlSearchParams P s) ''hash'' = Some h \<and> h \<noteq> [] \<and>
    BOT_TOKEN P = Some token \<and>
    h \<noteq> toHex (hmacSha256 P (hmacSha256 P ''WebAppData'' token)
                (dataCheckString P (URLSearchParams_delete (urlSearchParams P s) ''hash'')))"
  then show "validateInitData P (Some s) = invalid_result ''Hash validation failed''"
    by (auto simp: validateInitData_def validateInitData_try_def falsy_string_def invalid_result_def Error_def)
next
  assume miss: "falsy_number (parseInt (URLSearchParams_get (urlSearchParams P s) ''user.id'')) \<or>
    falsy_string (URLSearchParams_get (urlSearchParams P s) ''user.first_name'')"
  show "\<exists>message. validateInitData P (Some s) = invalid_result message"
  proof (cases "validateInitData_try P (Some s)")
    case (Inl e)
    then have "validateInitData P (Some s) = invalid_result (err_message e)"
      by (rule validateInitData_caught)
    then show ?thesis by blast
  next
    case (Inr r)
    then have "\<not> falsy_number (parseInt (URLSearchParams_get (URLSearchParams_delete (urlSearchParams P s) ''hash'') ''user.id''))
        \<and> \<not> falsy_string (URLSearchParams_get (URLSearchParams_delete (urlSearchParams P s) ''hash'') ''user.first_name'')"
      by (auto simp: validateInitData_try_def Let_def parseUserData_def split: if_splits option.splits)
    with miss show ?thesis by (simp add: URLSearchParams_get_delete)
  qed
qed


lemma demo_parse_others:
  "urlencoded_parse ''auth_date=1700000000&user.id=42'' =
     [(''auth_date'', ''1700000000''), (''user.id'', ''42'')]"
  "urlencoded_parse ''user.id=42&auth_date=1700000000&user.first_name=Ann&hash=0000'' =
     [(''user.id'', ''42''), (''auth_date'', ''1700000000''), (''user.first_name'', ''Ann''),
      (''hash'', ''0000'')]"
  "urlencoded_parse ''auth_date=1700000000&hash=ca36'' =
     [(''auth_date'', ''1700000000''), (''hash'', ''ca36'')]"
  by code_simp+

lemma demo_parse_full:
  "urlencoded_parse demo_initData_full =
     [(''user.id'', [CHR 0xC2, CHR 0xA0, CHR ''4'', CHR ''2'']),
      (''user.first_name'', ''Ann''), (''user.last_name'', ''Lee''),
      (''user.username'', ''ann''), (''user.language_code'', ''en''),
      (''user.is_premium'', ''true''), (''user.allows_write_to_pm'', ''true''),
      (''auth_date'', ''1700000000''), (''query_id'', ''Q1''),
      (''start_param'', ''go''), (''hash'', ''3092'')]"
  unfolding demo_initData_full_def by code_simp

lemma demo_dataCheckString_full:
  "dataCheckString demo_platform
     [(''user.id'', [CHR 0xC2, CHR 0xA0, CHR ''4'', CHR ''2'']),
      (''user.first_name'', ''Ann''), (''user.last_name'', ''Lee''),
      (''user.username'', ''ann''), (''user.language_code'', ''en''),
      (''user.is_premium'', ''true''), (''user.allows_write_to_pm'', ''true''),
      (''auth_date'', ''1700000000''), (''query_id'', ''Q1''),
      (''start_param'', ''go'')] =
   ''auth_date=1700000000'' @ newline @ ''query_id=Q1'' @ newline @ ''start_param=go'' @ newline @
   ''user.allows_write_to_pm=true'' @ newline @ ''user.first_name=Ann'' @ newline @
   (''user.id='' @ [CHR 0xC2, CHR 0xA0] @ ''42'') @ newline @ ''user.is_premium=true'' @ newline @
   ''user.language_code=en'' @ newline @ ''user.last_name=Lee'' @ newline @ ''user.username=ann''"
  unfolding dataCheckString_def demo_platform_simps by code_simp

lemma demo_calculatedHash_full:
  "toHex (demo_hmac (demo_hmac ''WebAppData'' ''123:abc'')
     (dataCheckString demo_platform
     [(''user.id'', [CHR 0xC2, CHR 0xA0, CHR ''4'', CHR ''2'']),
      (''user.first_name'', ''Ann''), (''user.last_name'', ''Lee''),
      (''user.username'', ''ann''), (''user.language_code'', ''en''),
      (''user.is_premium'', ''true''), (''user.allows_write_to_pm'', ''true''),
      (''auth_date'', ''1700000000''), (''query_id'', ''Q1''),
      (''start_param'', ''go'')])) = ''3092''"
  unfolding demo_dataCheckString_full
  by (simp add: demo_hmac_def checksum_def toHex_def hex_digit_def newline_def)

lemma demo_parseInt_nbsp: "parseInt (Some [CHR 0xC2, CHR 0xA0, CHR ''4'', CHR ''2'']) = Some 42"
  by code_simp

lemma demo_valid_full: "isValid (validateInitData demo_platform (Some demo_initData_full))"
  by (simp add: validateInitData_def validateInitData_try_def demo_platform_simps demo_parse_full
      URLSearchParams_delete_def demo_calculatedHash_full parseUserData_def demo_parseInt_nbsp
      falsy_number_def falsy_string_def)
    (simp add: demo_initData_full_def)

theorem validateInitData_never_throws_witness:
  "validateInitData demo_platform None = invalid_result ''Init data is required'' \<and>
   validateInitData demo_platform (Some ''auth_date=1700000000&user.id=42'') =
     invalid_result ''Hash is missing from init data'' \<and>
   validateInitData demo_platform
     (Some ''user.id=42&auth_date=1700000000&user.first_name=Ann&hash=0000'') =
     invalid_result ''Hash validation failed'' \<and>
   (\<exists>message. validateInitData demo_platform (Some ''auth_date=1700000000&hash=ca36'') =
     invalid_result message) \<and>
   isValid (validateInitData demo_platform
     (Some ''user.id=42&auth_date=1700000000&user.first_name=Ann&hash=7c7a'')) \<and>
   isValid (validateInitData demo_platform (Some demo_initData_full)) \<and>
   v_user (validateInitData demo_platform (Some demo_initData_full)) =
     Some \<lparr>ud_id = Some 42, ud_first_name = Some ''Ann'', ud_last_name = Some ''Lee'',
           ud_username = Some ''ann'', ud_language_code = Some ''en'', ud_is_premium = True,
           ud_allows_write_to_pm = True\<rparr> \<and>
   v_auth_date (validateInitData demo_platform (Some demo_initData_full)) = Some 1700000000 \<and>
   v_query_id (validateInitData demo_platform (Some demo_initData_full)) = Some ''Q1'' \<and>
   v_start_param (validateInitData demo_platform (Some demo_initData_full)) = Some ''go'' \<and>
   v_error (validateInitData demo_platform (Some demo_initData_full)) = None"
proof -
  let ?s1 = "''auth_date=1700000000&user.id=42''"
  let ?s2 = "''user.id=42&auth_date=1700000000&user.first_name=Ann&hash=0000''"
  let ?s3 = "''auth_date=1700000000&hash=ca36''"
  let ?r = "validateInitData demo_platform (Some demo_initData_full)"
  have h1: "?s1 \<noteq> [] \<and> URLSearchParams_get (urlSearchParams demo_platform ?s1) ''hash'' = None"
    by (simp add: demo_platform_simps demo_parse_others)
  have h2: "?s2 \<noteq> [] \<and> URLSearchParams_get (urlSearchParams demo_platform ?s2) ''hash'' = Some ''0000'' \<and>
    ''0000'' \<noteq> [] \<and> BOT_TOKEN demo_platform = Some ''123:abc'' \<and>
    ''0000'' \<noteq> toHex (hmacSha256 demo_platform (hmacSha256 demo_platform ''WebAppData'' ''123:abc'')
                (dataCheckString demo_platform (URLSearchParams_delete (urlSearchParams demo_platform ?s2) ''hash'')))"
    by (simp add: demo_platform_simps demo_parse_others URLSearchParams_delete_def demo_calculatedHash)
  have h3: "falsy_number (parseInt (URLSearchParams_get (urlSearchParams demo_platform ?s3) ''user.id'')) \<or>
    falsy_string (URLSearchParams_get (urlSearchParams demo_platform ?s3) ''user.first_name'')"
    by (simp add: demo_platform_simps demo_parse_others demo_parseInt falsy_number_def)
  note c2 = conjunct2
  have a: "validateInitData demo_platform None = invalid_result ''Init data is required''"
    by (rule validateInitData_never_throws [THEN c2, THEN conjunct1])
  have b: "validateInitData demo_platform (Some ?s1) = invalid_result ''Hash is missing from init data''"
    by (rule validateInitData_never_throws [THEN c2, THEN c2, THEN c2, THEN conjunct1, THEN mp, OF h1])
  have c: "validateInitData demo_platform (Some ?s2) = invalid_result ''Hash validation failed''"
    by (rule validateInitData_never_throws
        [THEN c2, THEN c2, THEN c2, THEN c2, THEN conjunct1, THEN mp, OF h2])
  have d: "\<exists>message. validateInitData demo_platform (Some ?s3) = invalid_result message"
    by (rule validateInitData_never_throws
        [THEN c2, THEN c2, THEN c2, THEN c2, THEN c2, THEN conjunct1, THEN mp, OF h3])
  note ok = validateInitData_never_throws
      [THEN c2, THEN c2, THEN c2, THEN c2, THEN c2, THEN c2, THEN mp, OF demo_valid_full]
  from ok [THEN conjunct1]
  obtain u where u: "v_user ?r = Some u"
    "ud_id u = parseInt (URLSearchParams_get (urlSearchParams demo_platform demo_initData_full) ''user.id'')"
    "ud_first_name u = URLSearchParams_get (urlSearchParams demo_platform demo_initData_full) ''user.first_name''"
    "ud_last_name u = URLSearchParams_get (urlSearchParams demo_platform demo_initData_full) ''user.last_name''"
    "ud_username u = URLSearchParams_get (urlSearchParams demo_platform demo_initData_full) ''user.username''"
    "ud_language_code u = URLSearchParams_get (urlSearchParams demo_platform demo_initData_full) ''user.language_code''"
    "ud_is_premium u = (URLSearchParams_get (urlSearchParams demo_platform demo_initData_full) ''user.is_premium'' = Some ''true'')"
    "ud_allows_write_to_pm u =
       (URLSearchParams_get (urlSearchParams demo_platform demo_initData_full) ''user.allows_write_to_pm'' = Some ''true'')"
    by (elim exE conjE)
  note o = ok [THEN c2, THEN conjunct1] ok [THEN c2, THEN c2, THEN conjunct1]
    ok [THEN c2, THEN c2, THEN c2, THEN conjunct1] ok [THEN c2, THEN c2, THEN c2, THEN c2]
  have e: "v_user ?r = Some \<lparr>ud_id = Some 42, ud_first_name = Some ''Ann'', ud_last_name = Some ''Lee'',
           ud_username = Some ''ann'', ud_language_code = Some ''en'', ud_is_premium = True,
           ud_allows_write_to_pm = True\<rparr>"
    using u by (cases u) (simp add: demo_platform_simps demo_parse_full demo_parseInt_nbsp)
  have f: "v_auth_date ?r = Some 1700000000" "v_query_id ?r = Some ''Q1''"
    "v_start_param ?r = Some ''go''"
    using o by (simp_all add: demo_platform_simps demo_parse_full demo_parseInt)
  show ?thesis
    by (intro conjI a b c d demo_valid demo_valid_full e f o(4))
qed

section \<open>Properties of the database operations\<close>

subsection \<open>The connection pool\<close>

lemma execute_simps:
  "execute upsertUser_query p w = exec_upsertUser p w"
  "execute getUserByTelegramId_query p w = exec_getUserByTelegramId p w"
  "execute getUserById_query p w = exec_getUserById p w"
  "execute createSession_query p w = exec_createSession p w"
  "execute getActiveSession_query p w = exec_getActiveSession p w"
  "execute invalidateSession_query p w = exec_invalidateSession p w"
  "execute cleanExpiredSessions_query p w = exec_cleanExpiredSessions p w"
  "execute logActivity_query p w = exec_logActivity p w"
  by (simp_all add: execute_def upsertUser_query_def getUserByTelegramId_query_def
      getUserById_query_def createSession_query_def getActiveSession_query_def
      invalidateSession_query_def cleanExpiredSessions_query_def logActivity_query_def newline_def)



lemma exec_upsertUser_frame:
  "exec_upsertUser p w = Some (r, w') \<Longrightarrow> same_connection w w'"
  by (auto simp: exec_upsertUser_def same_connection_def Let_def
      split: list.splits sql_value.splits option.splits if_splits)

lemma exec_getUserByTelegramId_frame:
  "exec_getUserByTelegramId p w = Some (r, w') \<Longrightarrow> w' = w"
  by (auto simp: exec_getUserByTelegramId_def Let_def split: list.splits sql_value.splits)

lemma exec_getUserById_frame:
  "exec_getUserById p w = Some (r, w') \<Longrightarrow> w' = w"
  by (auto simp: exec_getUserById_def Let_def split: list.splits sql_value.splits)

lemma exec_createSession_frame:
  "exec_createSession p w = Some (r, w') \<Longrightarrow> same_connection w w'"
  by (auto simp: exec_createSession_def same_connection_def Let_def split: list.splits sql_value.splits)

lemma exec_getActiveSession_frame:
  "exec_getActiveSession p w = Some (r, w') \<Longrightarrow> w' = w"
  by (auto simp: exec_getActiveSession_def Let_def split: list.splits sql_value.splits)

lemma exec_invalidateSession_frame:
  "exec_invalidateSession p w = Some (r, w') \<Longrightarrow> same_connection w w'"
  by (auto simp: exec_invalidateSession_def same_connection_def split: list.splits sql_value.splits)

lemma exec_cleanExpiredSessions_frame:
  "exec_cleanExpiredSessions p w = Some (r, w') \<Longrightarrow> same_connection w w'"
  by (auto simp: exec_cleanExpiredSessions_def same_connection_def split: list.splits)

lemma exec_logActivity_frame:
  "exec_logActivity p w = Some (r, w') \<Longrightarrow> same_connection w w'"
  by (auto simp: exec_logActivity_def same_connection_def Let_def
      split: list.splits sql_value.splits option.splits)

lemma same_connection_refl: "same_connection w w"
  by (simp add: same_connection_def)

lemma execute_frame:
  assumes "execute q p w = Some (r, w')"
  shows "same_connection w w'"
proof -
  consider "exec_upsertUser p w = Some (r, w')" | "exec_getUserByTelegramId p w = Some (r, w')"
    | "exec_getUserById p w = Some (r, w')" | "exec_createSession p w = Some (r, w')"
    | "exec_getActiveSession p w = Some (r, w')" | "exec_invalidateSession p w = Some (r, w')"
    | "exec_cleanExpiredSessions p w = Some (r, w')" | "exec_logActivity p w = Some (r, w')"
    using assms unfolding execute_def by (auto split: if_splits)
  then show ?thesis
    by cases
      (auto dest: exec_upsertUser_frame exec_getUserByTelegramId_frame exec_getUserById_frame
        exec_createSession_frame exec_getActiveSession_frame exec_invalidateSession_frame
        exec_cleanExpiredSessions_frame exec_logActivity_frame simp: same_connection_refl)
qed

lemma pool_query_sent: "sent (snd (pool_query q p w)) = sent w @ [(q, p)]"
proof (cases "next_rejected w")
  case True
  then show ?thesis by (simp add: pool_query_def)
next
  case False
  show ?thesis
  proof (cases "execute q p (w\<lparr>sent := sent w @ [(q, p)], faults := tl (faults w)\<rparr>)")
    case None
    with False show ?thesis by (simp add: pool_query_def)
  next
    case (Some a)
    obtain r w' where a: "a = (r, w')" by (cases a)
    from execute_frame [OF Some [unfolded a]] False Some a show ?thesis
      by (simp add: pool_query_def same_connection_def)
  qed
qed

lemma pool_query_rejected:
  "next_rejected w \<Longrightarrow>
   pool_query q p w = (Inl pg_error, w\<lparr>sent := sent w @ [(q, p)], faults := tl (faults w)\<rparr>)"
  by (simp add: pool_query_def)

subsection \<open>Cleaning expired sessions\<close>

lemma cleanExpiredSessions_cases:
  "cleanExpiredSessions w =
     (if next_rejected w
      then (Inl pg_error, w\<lparr>sent := sent w @ [(cleanExpiredSessions_query, [])], faults := tl (faults w)\<rparr>)
      else (Inr (length (filter (\<lambda>s. s_expires_at s < NOW w) (sessions w))),
            w\<lparr>sent := sent w @ [(cleanExpiredSessions_query, [])], faults := tl (faults w),
              sessions := filter (\<lambda>s. \<not> s_expires_at s < NOW w) (sessions w)\<rparr>))"
  by (simp add: cleanExpiredSessions_def pool_query_def execute_simps exec_cleanExpiredSessions_def)

text \<open>
  C6. When \<open>cleanExpiredSessions\<close> returns, the \<open>sessions\<close> table holds the rows
  whose \<open>expires_at\<close> is not before the clock of the database, unchanged and in
  their order, the rows that went are those with \<open>expires_at\<close> before it, the value
  returned is their number, and \<open>users\<close> and \<open>user_activity\<close> are as before. When
  the query is rejected no table changes, and it is rejected only when the server
  rejects it.
\<close>

theorem cleanExpiredSessions_deletes_expired:
  "(cleanExpiredSessions w = (Inr n, w') \<longrightarrow>
      sessions w' = filter (\<lambda>s. \<not> s_expires_at s < NOW w) (sessions w) \<and>
      mset (sessions w) = mset (sessions w') + mset (filter (\<lambda>s. s_expires_at s < NOW w) (sessions w)) \<and>
      n = length (filter (\<lambda>s. s_expires_at s < NOW w) (sessions w)) \<and>
      users w' = users w \<and> user_activity w' = user_activity w) \<and>
   (cleanExpiredSessions w = (Inl e, w') \<longrightarrow>
      sessions w' = sessions w \<and> users w' = users w \<and> user_activity w' = user_activity w) \<and>
   (\<not> next_rejected w \<longrightarrow> (\<exists>n w'. cleanExpiredSessions w = (Inr n, w')))"
  by (auto simp: cleanExpiredSessions_cases split: if_splits)


lemma demo_world_simps:
  "users demo_world = [demo_user]"
  "sessions demo_world = [demo_session_live, demo_session_expired]"
  "user_activity demo_world = []"
  "NOW demo_world = 1700000100000"
  "Date_now demo_world = 1700000100000"
  "faults demo_world = []"
  "sent demo_world = []"
  "\<not> next_rejected demo_world"
  by (simp_all add: demo_world_def next_rejected_def)

theorem cleanExpiredSessions_deletes_expired_witness:
  "cleanExpiredSessions demo_world = (Inr 1, snd (cleanExpiredSessions demo_world)) \<and>
   sessions (snd (cleanExpiredSessions demo_world)) = [demo_session_live] \<and>
   users (snd (cleanExpiredSessions demo_world)) = [demo_user] \<and>
   user_activity (snd (cleanExpiredSessions demo_world)) = [] \<and>
   \<not> next_rejected demo_world \<and>
   (\<exists>n w'. cleanExpiredSessions demo_world = (Inr n, w'))"
proof -
  have run: "cleanExpiredSessions demo_world = (Inr 1, snd (cleanExpiredSessions demo_world))"
    by (simp add: cleanExpiredSessions_cases demo_world_simps demo_session_live_def
        demo_session_expired_def)
  show ?thesis
    using run cleanExpiredSessions_deletes_expired
      [of demo_world 1 "snd (cleanExpiredSessions demo_world)"]
    by (simp add: demo_world_simps demo_session_live_def demo_session_expired_def)
qed

subsection \<open>Active sessions\<close>

lemma active_rows_mem:
  "r \<in> set (active_rows h w) \<longleftrightarrow>
     (\<exists>s u. r = SessionUserRow s u \<and> s \<in> set (sessions w) \<and> u \<in> set (users w) \<and>
            s_user_id s = u_id u \<and> s_token_hash s = h \<and> s_is_active s \<and> NOW w < s_expires_at s)"
  unfolding active_rows_def by auto

lemma active_rows_empty:
  assumes "\<forall>s \<in> set (sessions w). s_token_hash s = h \<longrightarrow> \<not> s_is_active s"
  shows "active_rows h w = []"
proof (cases "active_rows h w")
  case Nil
  then show ?thesis .
next
  case (Cons r rs)
  then have "r \<in> set (active_rows h w)" by simp
  with assms show ?thesis by (auto simp: active_rows_mem)
qed

lemma active_rows_clock:
  "active_rows h (w\<lparr>NOW := t, faults := fs\<rparr>) = active_rows h (w\<lparr>NOW := t\<rparr>)"
  by (simp add: active_rows_def)

lemma getActiveSession_cases:
  "getActiveSession h w =
     (if next_rejected w
      then (Inl pg_error, w\<lparr>sent := sent w @ [(getActiveSession_query, [SqlText h])], faults := tl (faults w)\<rparr>)
      else (Inr (Array_at (active_rows h w) 0),
            w\<lparr>sent := sent w @ [(getActiveSession_query, [SqlText h])], faults := tl (faults w)\<rparr>))"
  by (simp add: getActiveSession_def pool_query_def execute_simps exec_getActiveSession_def Let_def
      active_rows_def)

lemma invalidateSession_cases:
  "invalidateSession h w =
     (if next_rejected w
      then (Inl pg_error, w\<lparr>sent := sent w @ [(invalidateSession_query, [SqlText h])], faults := tl (faults w)\<rparr>)
      else (Inr True,
            w\<lparr>sent := sent w @ [(invalidateSession_query, [SqlText h])], faults := tl (faults w),
              sessions := map (\<lambda>s. if s_token_hash s = h then s\<lparr>s_is_active := False\<rparr> else s)
                                  (sessions w)\<rparr>))"
  by (simp add: invalidateSession_def pool_query_def execute_simps exec_invalidateSession_def Let_def)

lemma Array_at_Some_mem: "Array_at xs i = Some x \<Longrightarrow> x \<in> set xs"
  by (auto simp: Array_at_def split: if_splits)

lemma getActiveSession_Some:
  assumes "getActiveSession h w = (Inr (Some r), w')"
  shows "r \<in> set (active_rows h w)"
proof -
  from assms have "Array_at (active_rows h w) 0 = Some r"
    by (simp add: getActiveSession_cases split: if_splits)
  then show ?thesis by (rule Array_at_Some_mem)
qed

lemma invalidateSession_inactive:
  assumes "invalidateSession h w = (Inr True, w1)"
  shows "\<forall>s \<in> set (sessions w1). s_token_hash s = h \<longrightarrow> \<not> s_is_active s"
proof -
  from assms have eq: "sessions w1 = map (\<lambda>s. if s_token_hash s = h then s\<lparr>s_is_active := False\<rparr> else s) (sessions w)"
    by (simp add: invalidateSession_cases split: if_splits) (cases w1, cases w, simp)
  show ?thesis
  proof (intro ballI impI)
    fix s
    assume mem: "s \<in> set (sessions w1)" and hash: "s_token_hash s = h"
    from mem obtain s0 where s0: "s = (if s_token_hash s0 = h then s0\<lparr>s_is_active := False\<rparr> else s0)"
      unfolding eq set_map by blast
    show "\<not> s_is_active s"
    proof (cases "s_token_hash s0 = h")
      case True
      with s0 show ?thesis by simp
    next
      case False
      with s0 hash show ?thesis by simp
    qed
  qed
qed


text \<open>
  C5. \<open>getActiveSession(h)\<close> returns a row only when the \<open>sessions\<close> table has a
  row with \<open>token_hash = h\<close> whose \<open>is_active\<close> is true and whose \<open>expires_at\<close> is
  after the clock of the database (and the user of that session exists). After
  \<open>invalidateSession(h)\<close> has returned \<open>true\<close>, \<open>getActiveSession(h)\<close> returns no
  row at any later time: it returns \<open>null\<close> whenever its query is not rejected.
\<close>

theorem getActiveSession_only_active_unexpired:
  "(getActiveSession h w = (Inr (Some r), w') \<longrightarrow>
      (\<exists>s u. r = SessionUserRow s u \<and> s \<in> set (sessions w) \<and> u \<in> set (users w) \<and>
             s_token_hash s = h \<and> s_is_active s \<and> NOW w < s_expires_at s \<and> s_user_id s = u_id u)) \<and>
   (invalidateSession h w = (Inr True, w1) \<longrightarrow>
      (\<forall>t fs r w2. getActiveSession h (w1\<lparr>NOW := t, faults := fs\<rparr>) \<noteq> (Inr (Some r), w2)) \<and>
      (\<forall>t fs. \<not> next_rejected (w1\<lparr>NOW := t, faults := fs\<rparr>) \<longrightarrow>
         fst (getActiveSession h (w1\<lparr>NOW := t, faults := fs\<rparr>)) = Inr None))"
proof (intro conjI impI)
  assume "getActiveSession h w = (Inr (Some r), w')"
  then have "r \<in> set (active_rows h w)"
    by (rule getActiveSession_Some)
  then show "\<exists>s u. r = SessionUserRow s u \<and> s \<in> set (sessions w) \<and> u \<in> set (users w) \<and>
             s_token_hash s = h \<and> s_is_active s \<and> NOW w < s_expires_at s \<and> s_user_id s = u_id u"
    unfolding active_rows_mem by blast
next
  assume inv: "invalidateSession h w = (Inr True, w1)"
  have empty: "active_rows h (w1\<lparr>NOW := t, faults := fs\<rparr>) = []" for t fs
    using invalidateSession_inactive [OF inv] by (intro active_rows_empty) simp
  show "\<forall>t fs r w2. getActiveSession h (w1\<lparr>NOW := t, faults := fs\<rparr>) \<noteq> (Inr (Some r), w2)"
    by (simp add: getActiveSession_cases empty Array_at_def)
  show "\<forall>t fs. \<not> next_rejected (w1\<lparr>NOW := t, faults := fs\<rparr>) \<longrightarrow>
         fst (getActiveSession h (w1\<lparr>NOW := t, faults := fs\<rparr>)) = Inr None"
    by (simp add: getActiveSession_cases empty Array_at_def)
qed

lemma demo_active_rows:
  "active_rows ''8ba0'' demo_world = [SessionUserRow demo_session_live demo_user]"
  by (simp add: active_rows_def demo_world_simps demo_session_live_def demo_session_expired_def
      demo_user_def)

theorem getActiveSession_only_active_unexpired_witness:
  "getActiveSession ''8ba0'' demo_world =
     (Inr (Some (SessionUserRow demo_session_live demo_user)), snd (getActiveSession ''8ba0'' demo_world)) \<and>
   (\<exists>s u. SessionUserRow demo_session_live demo_user = SessionUserRow s u \<and>
          s \<in> set (sessions demo_world) \<and> u \<in> set (users demo_world) \<and>
          s_token_hash s = ''8ba0'' \<and> s_is_active s \<and> NOW demo_world < s_expires_at s \<and>
          s_user_id s = u_id u) \<and>
   invalidateSession ''8ba0'' demo_world = (Inr True, snd (invalidateSession ''8ba0'' demo_world)) \<and>
   \<not> next_rejected (snd (invalidateSession ''8ba0'' demo_world)\<lparr>NOW := 1700000100001, faults := []\<rparr>) \<and>
   fst (getActiveSession ''8ba0''
          (snd (invalidateSession ''8ba0'' demo_world)\<lparr>NOW := 1700000100001, faults := []\<rparr>)) = Inr None"
proof -
  have get: "getActiveSession ''8ba0'' demo_world =
     (Inr (Some (SessionUserRow demo_session_live demo_user)), snd (getActiveSession ''8ba0'' demo_world))"
    by (simp add: getActiveSession_cases demo_active_rows demo_world_simps Array_at_def)
  have inv: "invalidateSession ''8ba0'' demo_world = (Inr True, snd (invalidateSession ''8ba0'' demo_world))"
    by (simp add: invalidateSession_cases demo_world_simps)
  have ok: "\<not> next_rejected (snd (invalidateSession ''8ba0'' demo_world)\<lparr>NOW := 1700000100001, faults := []\<rparr>)"
    by (simp add: next_rejected_def)
  show ?thesis
    using get inv ok
      getActiveSession_only_active_unexpired
        [of "''8ba0''" demo_world "SessionUserRow demo_session_live demo_user"
            "snd (getActiveSession ''8ba0'' demo_world)" "snd (invalidateSession ''8ba0'' demo_world)"]
    by blast
qed

subsection \<open>Query texts\<close>

lemma snd_after_query:
  "snd (case pool_query q p w of
          (Inl err, w') \<Rightarrow> (f err, w')
        | (Inr result, w') \<Rightarrow> (g result, w')) = snd (pool_query q p w)"
  by (simp split: prod.splits sum.splits)

lemma snd_after_query_ignored:
  "snd (case pool_query q p w of (r, w') \<Rightarrow> (c, w')) = snd (pool_query q p w)"
  by (simp split: prod.splits)

text \<open>
  C7. Every operation of \<open>userOperations\<close>, \<open>sessionOperations\<close> and
  \<open>activityOperations\<close> hands exactly one request to \<open>pool.query\<close>: its query text
  is a constant of the program and the arguments are in the array of bound values only.
  So for any two argument lists the query texts sent are the same.
\<close>

theorem query_text_independent_of_arguments:
  "sent (snd (upsertUser telegramData w)) =
     sent w @ [(upsertUser_query,
                [number_value (ud_id telegramData), text_value (ud_username telegramData),
                 text_value (ud_first_name telegramData), text_value (ud_last_name telegramData),
                 text_value (ud_language_code telegramData), SqlBool (ud_is_premium telegramData)])] \<and>
   sent (snd (getUserByTelegramId telegramId w)) =
     sent w @ [(getUserByTelegramId_query, [int_value telegramId])] \<and>
   sent (snd (getUserById userId w)) = sent w @ [(getUserById_query, [int_value userId])] \<and>
   sent (snd (createSession userId tokenHash expiresAt w)) =
     sent w @ [(createSession_query, [int_value userId, SqlText tokenHash, SqlTimestamp expiresAt])] \<and>
   sent (snd (getActiveSession tokenHash w)) = sent w @ [(getActiveSession_query, [SqlText tokenHash])] \<and>
   sent (snd (invalidateSession tokenHash w)) = sent w @ [(invalidateSession_query, [SqlText tokenHash])] \<and>
   sent (snd (cleanExpiredSessions w)) = sent w @ [(cleanExpiredSessions_query, [])] \<and>
   sent (snd (logActivity userId action details ipAddress userAgent w)) =
     sent w @ [(logActivity_query,
                [int_value userId, SqlText action, SqlText (JSON_stringify details),
                 text_value ipAddress, text_value userAgent])] \<and>
   query_texts (snd (upsertUser telegramData w)) = query_texts (snd (upsertUser telegramData' w)) \<and>
   query_texts (snd (getUserByTelegramId telegramId w)) = query_texts (snd (getUserByTelegramId telegramId' w)) \<and>
   query_texts (snd (getUserById userId w)) = query_texts (snd (getUserById userId' w)) \<and>
   query_texts (snd (createSession userId tokenHash expiresAt w)) =
     query_texts (snd (createSession userId' tokenHash' expiresAt' w)) \<and>
   query_texts (snd (getActiveSession tokenHash w)) = query_texts (snd (getActiveSession tokenHash' w)) \<and>
   query_texts (snd (invalidateSession tokenHash w)) = query_texts (snd (invalidateSession tokenHash' w)) \<and>
   query_texts (snd (logActivity userId action details ipAddress userAgent w)) =
     query_texts (snd (logActivity userId' action' details' ipAddress' userAgent' w))"
  by (simp add: upsertUser_def getUserByTelegramId_def getUserById_def createSession_def
      getActiveSession_def invalidateSession_def cleanExpiredSessions_def logActivity_def
      snd_after_query snd_after_query_ignored pool_query_sent query_texts_def Let_def)

subsection \<open>Upserting a user\<close>

lemma param_simps:
  "text_param (text_value x) = Some x"
  "bool_param (SqlBool b) = Some (Some b)"
  "number_value (Some i) = SqlInt i"
  "number_value None = SqlText ''NaN''"
  "int_value (Some i) = SqlInt i"
  "int_value None = SqlNull"
  by (simp_all add: text_param_def text_value_def bool_param_def number_value_def int_value_def
      split: option.splits)

lemma exec_upsertUser_typed:
  "exec_upsertUser
     [SqlInt tid, text_value (ud_username td), text_value (ud_first_name td),
      text_value (ud_last_name td), text_value (ud_language_code td), SqlBool (ud_is_premium td)] w =
   (if list_ex (\<lambda>r. u_telegram_id r = tid) (users w)
    then Some (\<lparr>rows = map UserRow (filter (\<lambda>r. u_telegram_id r = tid)
                          (map (\<lambda>r. if u_telegram_id r = tid then overwrite td (NOW w) r else r) (users w))),
                 rowCount = length (filter (\<lambda>r. u_telegram_id r = tid)
                          (map (\<lambda>r. if u_telegram_id r = tid then overwrite td (NOW w) r else r) (users w)))\<rparr>,
               w\<lparr>users_id_seq := users_id_seq w + 1,
                 users := map (\<lambda>r. if u_telegram_id r = tid then overwrite td (NOW w) r else r) (users w)\<rparr>)
    else Some (\<lparr>rows = [UserRow (fresh_user td tid (users_id_seq w) (NOW w))], rowCount = 1\<rparr>,
               w\<lparr>users_id_seq := users_id_seq w + 1,
                 users := users w @ [fresh_user td tid (users_id_seq w) (NOW w)]\<rparr>))"
  unfolding overwrite_def fresh_user_def
  by (simp add: exec_upsertUser_def param_simps Let_def)

lemma exec_upsertUser_NaN:
  "exec_upsertUser (SqlText t # ps) w = None"
  by (simp add: exec_upsertUser_def)


lemma upsertUser_cases:
  "upsertUser td w =
     (if next_rejected w \<or> ud_id td = None
      then (Inl pg_error, w\<lparr>sent := sent w @ [(upsertUser_query,
                [number_value (ud_id td), text_value (ud_username td),
                 text_value (ud_first_name td), text_value (ud_last_name td),
                 text_value (ud_language_code td), SqlBool (ud_is_premium td)])],
              faults := tl (faults w)\<rparr>)
      else if list_ex (\<lambda>r. u_telegram_id r = the (ud_id td)) (users w)
      then (Inr (Array_at (map UserRow (filter (\<lambda>r. u_telegram_id r = the (ud_id td))
                     (map (\<lambda>r. if u_telegram_id r = the (ud_id td) then overwrite td (NOW w) r else r) (users w)))) 0),
            w\<lparr>sent := sent w @ [(upsertUser_query,
                [number_value (ud_id td), text_value (ud_username td),
                 text_value (ud_first_name td), text_value (ud_last_name td),
                 text_value (ud_language_code td), SqlBool (ud_is_premium td)])],
              faults := tl (faults w),
              users_id_seq := users_id_seq w + 1,
              users := map (\<lambda>r. if u_telegram_id r = the (ud_id td) then overwrite td (NOW w) r else r) (users w)\<rparr>)
      else (Inr (Some (UserRow (fresh_user td (the (ud_id td)) (users_id_seq w) (NOW w)))),
            w\<lparr>sent := sent w @ [(upsertUser_query,
                [number_value (ud_id td), text_value (ud_username td),
                 text_value (ud_first_name td), text_value (ud_last_name td),
                 text_value (ud_language_code td), SqlBool (ud_is_premium td)])],
              faults := tl (faults w),
              users_id_seq := users_id_seq w + 1,
              users := users w @ [fresh_user td (the (ud_id td)) (users_id_seq w) (NOW w)]\<rparr>))"
proof (cases "ud_id td")
  case None
  then show ?thesis
    by (simp add: upsertUser_def pool_query_def execute_simps param_simps exec_upsertUser_NaN Let_def)
next
  case (Some tid)
  then show ?thesis
    by (simp add: upsertUser_def pool_query_def execute_simps param_simps exec_upsertUser_typed
        Let_def Array_at_def cong: if_cong)
qed


lemma overwrite_simps:
  "u_id (overwrite td now r) = u_id r"
  "u_telegram_id (overwrite td now r) = u_telegram_id r"
  "u_created_at (overwrite td now r) = u_created_at r"
  "u_username (overwrite td now r) = ud_username td"
  "u_first_name (overwrite td now r) = ud_first_name td"
  "u_last_name (overwrite td now r) = ud_last_name td"
  "u_language_code (overwrite td now r) = ud_language_code td"
  "u_is_premium (overwrite td now r) = Some (ud_is_premium td)"
  "u_updated_at (overwrite td now r) = now"
  by (simp_all add: overwrite_def)


lemma filter_overwritten:
  "filter (\<lambda>r. u_telegram_id r = tid)
     (map (\<lambda>r. if u_telegram_id r = tid then overwrite td now r else r) xs) =
   map (overwrite td now) (filter (\<lambda>r. u_telegram_id r = tid) xs)"
  by (induction xs) (simp_all add: overwrite_simps)


lemma list_ex_filter: "list_ex P xs \<longleftrightarrow> filter P xs \<noteq> []"
  by (induction xs) simp_all

lemma Array_at_map_0: "ys \<noteq> [] \<Longrightarrow> Array_at (map f ys) 0 = Some (f (hd ys))"
  by (cases ys) (simp_all add: Array_at_def)







section \<open>Properties of the middleware and the routes\<close>

subsection \<open>\<open>authenticateToken\<close>\<close>

lemma getUserById_cases:
  "getUserById userId w =
     (if next_rejected w
      then (Inl pg_error, w\<lparr>sent := sent w @ [(getUserById_query, [int_value userId])], faults := tl (faults w)\<rparr>)
      else (Inr (Array_at (map UserRow (filter (\<lambda>r. Some (u_id r) = userId) (users w))) 0),
            w\<lparr>sent := sent w @ [(getUserById_query, [int_value userId])], faults := tl (faults w)\<rparr>))"
  by (cases userId)
    (simp_all add: getUserById_def pool_query_def execute_simps exec_getUserById_def Let_def
      param_simps Array_at_def)

lemma getUserById_Some:
  assumes "getUserById userId w = (Inr (Some r), w1)"
  shows "\<exists>user \<in> set (users w). r = UserRow user \<and> userId = Some (u_id user)"
proof -
  from assms have "Array_at (map UserRow (filter (\<lambda>r. Some (u_id r) = userId) (users w))) 0 = Some r"
    by (simp add: getUserById_cases split: if_splits)
  then have "r \<in> set (map UserRow (filter (\<lambda>r. Some (u_id r) = userId) (users w)))"
    by (rule Array_at_Some_mem)
  then show ?thesis by auto
qed

lemma getUserById_tables:
  "getUserById userId w = (res, w1) \<Longrightarrow>
   users w1 = users w \<and> sessions w1 = sessions w \<and> NOW w1 = NOW w \<and> Date_now w1 = Date_now w"
  by (auto simp: getUserById_cases split: if_splits)

lemma authenticateToken_Next:
  "authenticateToken P req w = (Next a, w') \<Longrightarrow> authenticateToken_try P req w = (Inr (Next a), w')"
  by (auto simp: authenticateToken_def split: prod.splits sum.splits if_splits)

lemma authenticateToken_try_Next:
  assumes "authenticateToken_try P req w = (Inr (Next a), w')"
  shows "\<exists>header token decoded user session w1.
      req_authorization req = Some header \<and> header \<noteq> [] \<and>
      Array_at (String_split (CHR '' '') header) 1 = Some token \<and> token \<noteq> [] \<and>
      verifyToken P token (Date_now w) = Inr decoded \<and>
      getUserById (p_userId decoded) w = (Inr (Some user), w1) \<and>
      getActiveSession (hashToken P token) w1 = (Inr (Some session), w') \<and>
      a = \<lparr>req_user = user, req_session = session, req_tokenHash = hashToken P token\<rparr>"
  using assms
  by (auto simp: authenticateToken_try_def Let_def falsy_string_def
      split: if_splits option.splits sum.splits prod.splits)


lemma authenticateToken_try_Respond:
  "authenticateToken_try P req w = (Inr (Respond res), w') \<Longrightarrow> status res = 401"
  by (auto simp: authenticateToken_try_def Let_def
      split: if_splits option.splits sum.splits prod.splits)

lemma authenticateToken_outcome:
  "(\<exists>a. fst (authenticateToken P req w) = Next a) \<or>
   (\<exists>res. fst (authenticateToken P req w) = Respond res \<and> (status res = 401 \<or> status res = 500))"
proof (cases "authenticateToken_try P req w")
  case (Pair r w')
  show ?thesis
  proof (cases r)
    case (Inl err)
    with Pair show ?thesis by (simp add: authenticateToken_def)
  next
    case (Inr m)
    show ?thesis
    proof (cases m)
      case (Next a)
      with Pair Inr show ?thesis by (simp add: authenticateToken_def)
    next
      case (Respond res)
      with Pair Inr authenticateToken_try_Respond [of P req w res w'] show ?thesis
        by (simp add: authenticateToken_def)
    qed
  qed
qed

lemma active_rows_connection:
  "active_rows h (w\<lparr>sent := x, faults := y\<rparr>) = active_rows h w"
  by (simp add: active_rows_def)

lemmas response_defs = access_token_required_def invalid_token_def token_expired_def
  authentication_failed_def user_not_found_def session_expired_def

lemma bearerToken_cases:
  "authenticateToken_try P req w =
     (if falsy_string (bearerToken req) then (Inr (Respond access_token_required), w)
      else case verifyToken P (the (bearerToken req)) (Date_now w) of
             Inl err \<Rightarrow> (Inl err, w)
           | Inr decoded \<Rightarrow>
               (case getUserById (p_userId decoded) w of
                  (Inl err, w1) \<Rightarrow> (Inl err, w1)
                | (Inr None, w1) \<Rightarrow> (Inr (Respond user_not_found), w1)
                | (Inr (Some user), w1) \<Rightarrow>
                    (case getActiveSession (hashToken P (the (bearerToken req))) w1 of
                       (Inl err, w2) \<Rightarrow> (Inl err, w2)
                     | (Inr None, w2) \<Rightarrow> (Inr (Respond session_expired), w2)
                     | (Inr (Some session), w2) \<Rightarrow>
                         (Inr (Next \<lparr>req_user = user, req_session = session,
                                     req_tokenHash = hashToken P (the (bearerToken req))\<rparr>), w2))))"
  unfolding authenticateToken_try_def bearerToken_def response_defs Let_def
  by (cases "req_authorization req") (auto simp: falsy_string_def)

lemma no_token:
  "falsy_string (bearerToken req) \<Longrightarrow>
   authenticateToken P req w = (Respond access_token_required, w)"
  by (simp add: authenticateToken_def bearerToken_cases)

lemma verify_throws:
  assumes "bearerToken req = Some token" "token \<noteq> []"
    and "verifyToken P token (Date_now w) = Inl err"
  shows "authenticateToken P req w =
          (Respond (if err_name err = ''JsonWebTokenError'' then invalid_token
                    else if err_name err = ''TokenExpiredError'' then token_expired
                    else authentication_failed), w)"
  using assms
  by (simp add: authenticateToken_def bearerToken_cases falsy_string_def response_defs)

lemma pg_error_name:
  "err_name pg_error \<noteq> ''JsonWebTokenError''" "err_name pg_error \<noteq> ''TokenExpiredError''"
  by (simp_all add: pg_error_def)

lemma user_query_rejected:
  assumes "bearerToken req = Some token" "token \<noteq> []"
    and "verifyToken P token (Date_now w) = Inr decoded"
    and "next_rejected w"
  shows "fst (authenticateToken P req w) = Respond authentication_failed"
  using assms
  by (simp add: authenticateToken_def bearerToken_cases falsy_string_def getUserById_cases
      pg_error_name authentication_failed_def)

lemma no_user:
  assumes "bearerToken req = Some token" "token \<noteq> []"
    and "verifyToken P token (Date_now w) = Inr decoded"
    and "\<not> next_rejected w"
    and "\<forall>u \<in> set (users w). Some (u_id u) \<noteq> p_userId decoded"
  shows "fst (authenticateToken P req w) = Respond user_not_found"
proof -
  from assms(5) have "filter (\<lambda>r. Some (u_id r) = p_userId decoded) (users w) = []"
    by (simp add: filter_empty_conv)
  with assms(1-4) show ?thesis
    by (simp add: authenticateToken_def bearerToken_cases falsy_string_def getUserById_cases
        Array_at_def)
qed

lemma next_rejected_after_query:
  "next_rejected (w\<lparr>sent := x, faults := tl (faults w)\<rparr>) = next_rejected (w\<lparr>faults := tl (faults w)\<rparr>)"
  by (simp add: next_rejected_def)

lemma user_found:
  assumes "\<not> next_rejected w" and "\<exists>u \<in> set (users w). Some (u_id u) = p_userId decoded"
  shows "\<exists>user. getUserById (p_userId decoded) w =
           (Inr (Some user), w\<lparr>sent := sent w @ [(getUserById_query, [int_value (p_userId decoded)])],
                               faults := tl (faults w)\<rparr>)"
proof -
  from assms(2) have "filter (\<lambda>r. Some (u_id r) = p_userId decoded) (users w) \<noteq> []"
    by (simp add: filter_empty_conv)
  with assms(1) show ?thesis
    by (simp add: getUserById_cases Array_at_map_0)
qed

lemma session_query_rejected:
  assumes "bearerToken req = Some token" "token \<noteq> []"
    and "verifyToken P token (Date_now w) = Inr decoded"
    and "\<not> next_rejected w"
    and "\<exists>u \<in> set (users w). Some (u_id u) = p_userId decoded"
    and "next_rejected (w\<lparr>faults := tl (faults w)\<rparr>)"
  shows "fst (authenticateToken P req w) = Respond authentication_failed"
proof -
  from user_found [OF assms(4,5)] obtain user where
    "getUserById (p_userId decoded) w =
           (Inr (Some user), w\<lparr>sent := sent w @ [(getUserById_query, [int_value (p_userId decoded)])],
                               faults := tl (faults w)\<rparr>)" ..
  with assms(1-3,6) show ?thesis
    by (simp add: authenticateToken_def bearerToken_cases falsy_string_def getActiveSession_cases
        next_rejected_after_query pg_error_name authentication_failed_def)
qed

lemma no_session:
  assumes "bearerToken req = Some token" "token \<noteq> []"
    and "verifyToken P token (Date_now w) = Inr decoded"
    and "\<not> next_rejected w"
    and "\<exists>u \<in> set (users w). Some (u_id u) = p_userId decoded"
    and "\<not> next_rejected (w\<lparr>faults := tl (faults w)\<rparr>)"
    and "\<not> (\<exists>s \<in> set (sessions w). \<exists>u \<in> set (users w).
              s_user_id s = u_id u \<and> s_token_hash s = hashToken P token \<and> s_is_active s \<and>
              NOW w < s_expires_at s)"
  shows "fst (authenticateToken P req w) = Respond session_expired"
proof -
  from user_found [OF assms(4,5)] obtain user where
    "getUserById (p_userId decoded) w =
           (Inr (Some user), w\<lparr>sent := sent w @ [(getUserById_query, [int_value (p_userId decoded)])],
                               faults := tl (faults w)\<rparr>)" ..
  moreover have "active_rows (hashToken P token) w = []"
  proof (cases "active_rows (hashToken P token) w")
    case (Cons r rs)
    then have "r \<in> set (active_rows (hashToken P token) w)" by simp
    with assms(7) show ?thesis unfolding active_rows_mem by blast
  qed simp
  ultimately show ?thesis
    using assms(1-3,6)
    by (simp add: authenticateToken_def bearerToken_cases falsy_string_def getActiveSession_cases
        next_rejected_after_query active_rows_connection Array_at_def)
qed

lemma session_found:
  assumes "bearerToken req = Some token" "token \<noteq> []"
    and "verifyToken P token (Date_now w) = Inr decoded"
    and "\<not> next_rejected w"
    and "\<exists>u \<in> set (users w). Some (u_id u) = p_userId decoded"
    and "\<not> next_rejected (w\<lparr>faults := tl (faults w)\<rparr>)"
    and "\<exists>s \<in> set (sessions w). \<exists>u \<in> set (users w).
              s_user_id s = u_id u \<and> s_token_hash s = hashToken P token \<and> s_is_active s \<and>
              NOW w < s_expires_at s"
  shows "\<exists>a. fst (authenticateToken P req w) = Next a"
proof -
  from user_found [OF assms(4,5)] obtain user where
    "getUserById (p_userId decoded) w =
           (Inr (Some user), w\<lparr>sent := sent w @ [(getUserById_query, [int_value (p_userId decoded)])],
                               faults := tl (faults w)\<rparr>)" ..
  moreover from assms(7) obtain r where "r \<in> set (active_rows (hashToken P token) w)"
    unfolding active_rows_mem by blast
  then have "active_rows (hashToken P token) w \<noteq> []" by auto
  then obtain r0 where "Array_at (active_rows (hashToken P token) w) 0 = Some r0"
    by (cases "active_rows (hashToken P token) w") (simp_all add: Array_at_def)
  ultimately show ?thesis
    using assms(1-3,6)
    by (simp add: authenticateToken_def bearerToken_cases falsy_string_def getActiveSession_cases
        next_rejected_after_query active_rows_connection)
qed

lemma authenticateToken_only_if:
  "(authenticateToken P req w = (Next a, w') \<longrightarrow>
      (\<exists>header token decoded user s u.
          req_authorization req = Some header \<and>
          Array_at (String_split (CHR '' '') header) 1 = Some token \<and>
          jwt_verify P token (JWT_SECRET P)
            \<lparr>issuer = ''telegram-mini-app'', audience = ''telegram-users''\<rparr> (Date_now w) = Inr decoded \<and>
          user \<in> set (users w) \<and> p_userId decoded = Some (u_id user) \<and>
          s \<in> set (sessions w) \<and> s_token_hash s = toHex (sha256 P token) \<and>
          s_is_active s \<and> NOW w < s_expires_at s \<and>
          a = \<lparr>req_user = UserRow user, req_session = SessionUserRow s u,
               req_tokenHash = toHex (sha256 P token)\<rparr>)) \<and>
   ((\<exists>a. fst (authenticateToken P req w) = Next a) \<or>
    (\<exists>res. fst (authenticateToken P req w) = Respond res \<and> (status res = 401 \<or> status res = 500))) \<and>
   (authenticateToken P req w = (Respond res, w') \<longrightarrow>
      protected_route P req w = (res, w') \<and> logout_route P req w = (res, w'))"
proof (intro conjI impI)
  assume "authenticateToken P req w = (Next a, w')"
  then have "authenticateToken_try P req w = (Inr (Next a), w')"
    by (rule authenticateToken_Next)
  then obtain header token decoded user session w1 where
    hd: "req_authorization req = Some header"
    and tk: "Array_at (String_split (CHR '' '') header) 1 = Some token"
    and vf: "verifyToken P token (Date_now w) = Inr decoded"
    and gu: "getUserById (p_userId decoded) w = (Inr (Some user), w1)"
    and gs: "getActiveSession (hashToken P token) w1 = (Inr (Some session), w')"
    and a: "a = \<lparr>req_user = user, req_session = session, req_tokenHash = hashToken P token\<rparr>"
    using authenticateToken_try_Next by blast
  from getUserById_Some [OF gu] obtain ur where
    ur: "ur \<in> set (users w)" "user = UserRow ur" "p_userId decoded = Some (u_id ur)" by blast
  from getActiveSession_Some [OF gs] have "session \<in> set (active_rows (hashToken P token) w1)" .
  then obtain s u where
    su: "session = SessionUserRow s u" "s \<in> set (sessions w1)" "s_token_hash s = hashToken P token"
        "s_is_active s" "NOW w1 < s_expires_at s"
    unfolding active_rows_mem by blast
  from getUserById_tables [OF gu] have fr: "sessions w1 = sessions w" "NOW w1 = NOW w" by simp_all
  show "\<exists>header token decoded user s u.
          req_authorization req = Some header \<and>
          Array_at (String_split (CHR '' '') header) 1 = Some token \<and>
          jwt_verify P token (JWT_SECRET P)
            \<lparr>issuer = ''telegram-mini-app'', audience = ''telegram-users''\<rparr> (Date_now w) = Inr decoded \<and>
          user \<in> set (users w) \<and> p_userId decoded = Some (u_id user) \<and>
          s \<in> set (sessions w) \<and> s_token_hash s = toHex (sha256 P token) \<and>
          s_is_active s \<and> NOW w < s_expires_at s \<and>
          a = \<lparr>req_user = UserRow user, req_session = SessionUserRow s u,
               req_tokenHash = toHex (sha256 P token)\<rparr>"
    apply (rule exI [of _ header], rule exI [of _ token], rule exI [of _ decoded])
    apply (rule exI [of _ ur], rule exI [of _ s], rule exI [of _ u])
    using hd tk vf ur su fr a
    apply (simp add: verifyToken_def hashToken_def)
    done
next
  show "(\<exists>a. fst (authenticateToken P req w) = Next a) \<or>
    (\<exists>res. fst (authenticateToken P req w) = Respond res \<and> (status res = 401 \<or> status res = 500))"
    by (rule authenticateToken_outcome)
next
  assume "authenticateToken P req w = (Respond res, w')"
  then show "protected_route P req w = (res, w')" by (simp add: protected_route_def)
next
  assume "authenticateToken P req w = (Respond res, w')"
  then show "logout_route P req w = (res, w')" by (simp add: logout_route_def)
qed

text \<open>
  C9. \<open>authenticateToken\<close> calls \<open>next()\<close> only when the second word of the
  \<open>Authorization\<close> header verifies under \<open>JWT_SECRET\<close> with issuer
  \<open>telegram-mini-app\<close> and audience \<open>telegram-users\<close>, a row of \<open>users\<close> has the
  decoded \<open>userId\<close> as its \<open>id\<close>, and a row of \<open>sessions\<close> has the SHA-256 of the
  token, in hex, as its \<open>token_hash\<close>, is active and expires after the clock of the
  database. In every other case it responds with status 401 or 500, and then the
  routes behind it respond with that response and their handlers do not run.
  Each response has its cause. Without a second word in the header the response is
  401 \<open>Access token required\<close>. When the verification throws, it is
  401 \<open>Invalid token\<close> for an error named \<open>JsonWebTokenError\<close>,
  401 \<open>Token expired\<close> for one named \<open>TokenExpiredError\<close>, and
  500 \<open>Authentication failed\<close> for any other error. When the token verifies, it is
  500 when the database rejects the query for the user, 401 \<open>User not found\<close> when
  no row of \<open>users\<close> has the decoded \<open>userId\<close>, 500 when the database rejects
  the query for the session, 401 \<open>Session expired\<close> when no active, unexpired
  session of an existing user has the hash of the token, and \<open>next()\<close> otherwise.
\<close>

theorem authenticateToken_passes_only_verified:
  "(authenticateToken P req w = (Next a, w') \<longrightarrow>
      (\<exists>header token decoded user s u.
          req_authorization req = Some header \<and>
          Array_at (String_split (CHR '' '') header) 1 = Some token \<and>
          jwt_verify P token (JWT_SECRET P)
            \<lparr>issuer = ''telegram-mini-app'', audience = ''telegram-users''\<rparr> (Date_now w) = Inr decoded \<and>
          user \<in> set (users w) \<and> p_userId decoded = Some (u_id user) \<and>
          s \<in> set (sessions w) \<and> s_token_hash s = toHex (sha256 P token) \<and>
          s_is_active s \<and> NOW w < s_expires_at s \<and>
          a = \<lparr>req_user = UserRow user, req_session = SessionUserRow s u,
               req_tokenHash = toHex (sha256 P token)\<rparr>)) \<and>
   ((\<exists>a. fst (authenticateToken P req w) = Next a) \<or>
    (\<exists>res. fst (authenticateToken P req w) = Respond res \<and> (status res = 401 \<or> status res = 500))) \<and>
   (authenticateToken P req w = (Respond res, w') \<longrightarrow>
      protected_route P req w = (res, w') \<and> logout_route P req w = (res, w')) \<and>
   (falsy_string (bearerToken req) \<longrightarrow>
      authenticateToken P req w = (Respond access_token_required, w)) \<and>
   (bearerToken req = Some token \<and> token \<noteq> [] \<and>
    jwt_verify P token (JWT_SECRET P)
      \<lparr>issuer = ''telegram-mini-app'', audience = ''telegram-users''\<rparr> (Date_now w) = Inl err \<longrightarrow>
      authenticateToken P req w =
        (Respond (if err_name err = ''JsonWebTokenError'' then invalid_token
                  else if err_name err = ''TokenExpiredError'' then token_expired
                  else authentication_failed), w)) \<and>
   (bearerToken req = Some token \<and> token \<noteq> [] \<and>
    jwt_verify P token (JWT_SECRET P)
      \<lparr>issuer = ''telegram-mini-app'', audience = ''telegram-users''\<rparr> (Date_now w) = Inr decoded \<and>
    next_rejected w \<longrightarrow>
      fst (authenticateToken P req w) = Respond authentication_failed) \<and>
   (bearerToken req = Some token \<and> token \<noteq> [] \<and>
    jwt_verify P token (JWT_SECRET P)
      \<lparr>issuer = ''telegram-mini-app'', audience = ''telegram-users''\<rparr> (Date_now w) = Inr decoded \<and>
    \<not> next_rejected w \<and> (\<forall>u \<in> set (users w). Some (u_id u) \<noteq> p_userId decoded) \<longrightarrow>
      fst (authenticateToken P req w) = Respond user_not_found) \<and>
   (bearerToken req = Some token \<and> token \<noteq> [] \<and>
    jwt_verify P token (JWT_SECRET P)
      \<lparr>issuer = ''telegram-mini-app'', audience = ''telegram-users''\<rparr> (Date_now w) = Inr decoded \<and>
    \<not> next_rejected w \<and> (\<exists>u \<in> set (users w). Some (u_id u) = p_userId decoded) \<and>
    next_rejected (w\<lparr>faults := tl (faults w)\<rparr>) \<longrightarrow>
      fst (authenticateToken P req w) = Respond authentication_failed) \<and>
   (bearerToken req = Some token \<and> token \<noteq> [] \<and>
    jwt_verify P token (JWT_SECRET P)
      \<lparr>issuer = ''telegram-mini-app'', audience = ''telegram-users''\<rparr> (Date_now w) = Inr decoded \<and>
    \<not> next_rejected w \<and> (\<exists>u \<in> set (users w). Some (u_id u) = p_userId decoded) \<and>
    \<not> next_rejected (w\<lparr>faults := tl (faults w)\<rparr>) \<and>
    \<not> (\<exists>s \<in> set (sessions w). \<exists>u \<in> set (users w).
        s_user_id s = u_id u \<and> s_token_hash s = toHex (sha256 P token) \<and> s_is_active s \<and>
        NOW w < s_expires_at s) \<longrightarrow>
      fst (authenticateToken P req w) = Respond session_expired) \<and>
   (bearerToken req = Some token \<and> token \<noteq> [] \<and>
    jwt_verify P token (JWT_SECRET P)
      \<lparr>issuer = ''telegram-mini-app'', audience = ''telegram-users''\<rparr> (Date_now w) = Inr decoded \<and>
    \<not> next_rejected w \<and> (\<exists>u \<in> set (users w). Some (u_id u) = p_userId decoded) \<and>
    \<not> next_rejected (w\<lparr>faults := tl (faults w)\<rparr>) \<and>
    (\<exists>s \<in> set (sessions w). \<exists>u \<in> set (users w).
        s_user_id s = u_id u \<and> s_token_hash s = toHex (sha256 P token) \<and> s_is_active s \<and>
        NOW w < s_expires_at s) \<longrightarrow>
      (\<exists>a. fst (authenticateToken P req w) = Next a)) \<and>
   status access_token_required = 401 \<and> status invalid_token = 401 \<and> status token_expired = 401 \<and>
   status user_not_found = 401 \<and> status session_expired = 401 \<and> status authentication_failed = 500"
proof -
  note defs = verifyToken_def [symmetric] hashToken_def [symmetric]
  have a: "falsy_string (bearerToken req) \<longrightarrow>
      authenticateToken P req w = (Respond access_token_required, w)"
    using no_token by blast
  have b: "bearerToken req = Some token \<and> token \<noteq> [] \<and>
    jwt_verify P token (JWT_SECRET P)
      \<lparr>issuer = ''telegram-mini-app'', audience = ''telegram-users''\<rparr> (Date_now w) = Inl err \<longrightarrow>
      authenticateToken P req w =
        (Respond (if err_name err = ''JsonWebTokenError'' then invalid_token
                  else if err_name err = ''TokenExpiredError'' then token_expired
                  else authentication_failed), w)"
    unfolding defs using verify_throws by blast
  have c: "bearerToken req = Some token \<and> token \<noteq> [] \<and>
    jwt_verify P token (JWT_SECRET P)
      \<lparr>issuer = ''telegram-mini-app'', audience = ''telegram-users''\<rparr> (Date_now w) = Inr decoded \<and>
    next_rejected w \<longrightarrow>
      fst (authenticateToken P req w) = Respond authentication_failed"
    unfolding defs using user_query_rejected by blast
  have d: "bearerToken req = Some token \<and> token \<noteq> [] \<and>
    jwt_verify P token (JWT_SECRET P)
      \<lparr>issuer = ''telegram-mini-app'', audience = ''telegram-users''\<rparr> (Date_now w) = Inr decoded \<and>
    \<not> next_rejected w \<and> (\<forall>u \<in> set (users w). Some (u_id u) \<noteq> p_userId decoded) \<longrightarrow>
      fst (authenticateToken P req w) = Respond user_not_found"
    unfolding defs using no_user by blast
  have e: "bearerToken req = Some token \<and> token \<noteq> [] \<and>
    jwt_verify P token (JWT_SECRET P)
      \<lparr>issuer = ''telegram-mini-app'', audience = ''telegram-users''\<rparr> (Date_now w) = Inr decoded \<and>
    \<not> next_rejected w \<and> (\<exists>u \<in> set (users w). Some (u_id u) = p_userId decoded) \<and>
    next_rejected (w\<lparr>faults := tl (faults w)\<rparr>) \<longrightarrow>
      fst (authenticateToken P req w) = Respond authentication_failed"
    unfolding defs using session_query_rejected by blast
  have f: "bearerToken req = Some token \<and> token \<noteq> [] \<and>
    jwt_verify P token (JWT_SECRET P)
      \<lparr>issuer = ''telegram-mini-app'', audience = ''telegram-users''\<rparr> (Date_now w) = Inr decoded \<and>
    \<not> next_rejected w \<and> (\<exists>u \<in> set (users w). Some (u_id u) = p_userId decoded) \<and>
    \<not> next_rejected (w\<lparr>faults := tl (faults w)\<rparr>) \<and>
    \<not> (\<exists>s \<in> set (sessions w). \<exists>u \<in> set (users w).
        s_user_id s = u_id u \<and> s_token_hash s = toHex (sha256 P token) \<and> s_is_active s \<and>
        NOW w < s_expires_at s) \<longrightarrow>
      fst (authenticateToken P req w) = Respond session_expired"
    unfolding defs using no_session [of req token P w decoded] by blast
  have g: "bearerToken req = Some token \<and> token \<noteq> [] \<and>
    jwt_verify P token (JWT_SECRET P)
      \<lparr>issuer = ''telegram-mini-app'', audience = ''telegram-users''\<rparr> (Date_now w) = Inr decoded \<and>
    \<not> next_rejected w \<and> (\<exists>u \<in> set (users w). Some (u_id u) = p_userId decoded) \<and>
    \<not> next_rejected (w\<lparr>faults := tl (faults w)\<rparr>) \<and>
    (\<exists>s \<in> set (sessions w). \<exists>u \<in> set (users w).
        s_user_id s = u_id u \<and> s_token_hash s = toHex (sha256 P token) \<and> s_is_active s \<and>
        NOW w < s_expires_at s) \<longrightarrow>
      (\<exists>a. fst (authenticateToken P req w) = Next a)"
    unfolding defs using session_found [of req token P w decoded] by blast
  have h: "status access_token_required = 401 \<and> status invalid_token = 401 \<and> status token_expired = 401 \<and>
   status user_not_found = 401 \<and> status session_expired = 401 \<and> status authentication_failed = 500"
    by (simp add: response_defs)
  from authenticateToken_only_if [of P req w a w' res] a b c d e f g h
  show ?thesis by (intro conjI) (elim conjE, assumption)+
qed


lemma demo_bearer:
  "Array_at (String_split (CHR '' '') ''Bearer token-1.4738'') 1 = Some ''token-1.4738''"
  by code_simp

lemma demo_signature: "toHex (demo_hmac ''s3cret'' (''telegram-mini-app'' @ ''telegram-users'')) = ''4738''"
  by (simp add: demo_hmac_def checksum_def toHex_def hex_digit_def)

lemma demo_verifyToken:
  "verifyToken demo_platform ''token-1.4738'' now =
     Inr \<lparr>p_userId = Some 1, p_telegramId = Some 42, p_username = None,
          p_firstName = Some ''Ann'', p_lastName = None, p_isPremium = Some False\<rparr>"
  using demo_signature
  by (simp add: verifyToken_def demo_platform_simps demo_jwt_verify_def)

lemma demo_hashToken: "hashToken demo_platform ''token-1.4738'' = ''8ba0''"
  by (simp add: hashToken_def demo_platform_simps checksum_def toHex_def hex_digit_def)

lemma demo_authenticated:
  "authenticateToken demo_platform demo_request demo_world =
     (Next \<lparr>req_user = UserRow demo_user,
            req_session = SessionUserRow demo_session_live demo_user,
            req_tokenHash = ''8ba0''\<rparr>,
      snd (authenticateToken demo_platform demo_request demo_world))"
  by (simp add: authenticateToken_def authenticateToken_try_def demo_request_def falsy_string_def
      demo_bearer demo_verifyToken demo_hashToken getUserById_cases getActiveSession_cases
      demo_world_simps next_rejected_def active_rows_connection demo_active_rows Array_at_def
      demo_user_def Let_def)

lemma demo_bearerToken: "bearerToken demo_request = Some ''token-1.4738''"
  by (simp add: bearerToken_def demo_request_def falsy_string_def Array_at_def)

lemma demo_bearerToken_bad:
  "bearerToken (demo_request\<lparr>req_authorization := Some ''Bearer bad''\<rparr>) = Some ''bad''"
  by (simp add: bearerToken_def falsy_string_def Array_at_def)

lemma demo_jwt_verify_ok:
  "jwt_verify demo_platform ''token-1.4738'' (JWT_SECRET demo_platform) \<lparr>issuer = ''telegram-mini-app'', audience = ''telegram-users''\<rparr> now =
     Inr \<lparr>p_userId = Some 1, p_telegramId = Some 42, p_username = None,
          p_firstName = Some ''Ann'', p_lastName = None, p_isPremium = Some False\<rparr>"
  using demo_verifyToken [of now] by (simp add: verifyToken_def)

lemma demo_jwt_verify_bad:
  "jwt_verify demo_platform ''bad'' (JWT_SECRET demo_platform) \<lparr>issuer = ''telegram-mini-app'', audience = ''telegram-users''\<rparr> now =
     Inl (JsonWebTokenError ''invalid signature'')"
  by (simp add: demo_platform_simps demo_jwt_verify_def)

lemma demo_sha256: "toHex (sha256 demo_platform ''token-1.4738'') = ''8ba0''"
  using demo_hashToken by (simp add: hashToken_def)

theorem authenticateToken_passes_only_verified_witness:
  "authenticateToken demo_platform demo_request demo_world =
     (Next \<lparr>req_user = UserRow demo_user,
            req_session = SessionUserRow demo_session_live demo_user,
            req_tokenHash = ''8ba0''\<rparr>,
      snd (authenticateToken demo_platform demo_request demo_world)) \<and>
   (\<exists>header token decoded user s u.
          req_authorization demo_request = Some header \<and>
          Array_at (String_split (CHR '' '') header) 1 = Some token \<and>
          jwt_verify demo_platform token (JWT_SECRET demo_platform)
            \<lparr>issuer = ''telegram-mini-app'', audience = ''telegram-users''\<rparr> (Date_now demo_world) = Inr decoded \<and>
          user \<in> set (users demo_world) \<and> p_userId decoded = Some (u_id user) \<and>
          s \<in> set (sessions demo_world) \<and> s_token_hash s = toHex (sha256 demo_platform token) \<and>
          s_is_active s \<and> NOW demo_world < s_expires_at s) \<and>
   authenticateToken demo_platform (demo_request\<lparr>req_authorization := None\<rparr>) demo_world =
     (Respond \<lparr>status = 401,
      body = JObj [(''error'', JStr ''Access token required''),
                   (''message'', JStr ''Please provide a valid authentication token'')]\<rparr>,
      demo_world) \<and>
   fst (protected_route demo_platform (demo_request\<lparr>req_authorization := None\<rparr>) demo_world) =
     \<lparr>status = 401,
      body = JObj [(''error'', JStr ''Access token required''),
                   (''message'', JStr ''Please provide a valid authentication token'')]\<rparr> \<and>
   authenticateToken demo_platform (demo_request\<lparr>req_authorization := Some ''Bearer bad''\<rparr>) demo_world =
     (Respond \<lparr>status = 401,
      body = JObj [(''error'', JStr ''Invalid token''),
                   (''message'', JStr ''The provided token is invalid'')]\<rparr>,
      demo_world) \<and>
   fst (authenticateToken demo_platform demo_request (demo_world\<lparr>faults := [True]\<rparr>)) =
     Respond \<lparr>status = 500,
      body = JObj [(''error'', JStr ''Authentication failed''),
                   (''message'', JStr ''An error occurred during authentication'')]\<rparr> \<and>
   fst (authenticateToken demo_platform demo_request (demo_world\<lparr>users := []\<rparr>)) =
     Respond \<lparr>status = 401,
      body = JObj [(''error'', JStr ''User not found''),
                   (''message'', JStr ''The user associated with this token no longer exists'')]\<rparr> \<and>
   fst (authenticateToken demo_platform demo_request (demo_world\<lparr>faults := [False, True]\<rparr>)) =
     Respond \<lparr>status = 500,
      body = JObj [(''error'', JStr ''Authentication failed''),
                   (''message'', JStr ''An error occurred during authentication'')]\<rparr> \<and>
   fst (authenticateToken demo_platform demo_request (demo_world\<lparr>NOW := 1700000300000\<rparr>)) =
     Respond \<lparr>status = 401,
      body = JObj [(''error'', JStr ''Session expired''),
                   (''message'', JStr ''Your session has expired. Please login again'')]\<rparr> \<and>
   (\<exists>a. fst (authenticateToken demo_platform demo_request demo_world) = Next a)"
proof -
  note c2 = conjunct2
  note tk = demo_bearerToken demo_jwt_verify_ok
  have ne: "''token-1.4738'' \<noteq> []" "''bad'' \<noteq> []" by simp_all
  have e: "\<exists>header token decoded user s u.
          req_authorization demo_request = Some header \<and>
          Array_at (String_split (CHR '' '') header) 1 = Some token \<and>
          jwt_verify demo_platform token (JWT_SECRET demo_platform)
            \<lparr>issuer = ''telegram-mini-app'', audience = ''telegram-users''\<rparr> (Date_now demo_world) = Inr decoded \<and>
          user \<in> set (users demo_world) \<and> p_userId decoded = Some (u_id user) \<and>
          s \<in> set (sessions demo_world) \<and> s_token_hash s = toHex (sha256 demo_platform token) \<and>
          s_is_active s \<and> NOW demo_world < s_expires_at s"
    using authenticateToken_passes_only_verified
        [of demo_platform demo_request demo_world
          "\<lparr>req_user = UserRow demo_user, req_session = SessionUserRow demo_session_live demo_user,
            req_tokenHash = ''8ba0''\<rparr>"
          "snd (authenticateToken demo_platform demo_request demo_world)",
         THEN conjunct1, THEN mp, OF demo_authenticated]
    by blast
  have no: "authenticateToken demo_platform (demo_request\<lparr>req_authorization := None\<rparr>) demo_world =
     (Respond \<lparr>status = 401,
      body = JObj [(''error'', JStr ''Access token required''),
                   (''message'', JStr ''Please provide a valid authentication token'')]\<rparr>,
      demo_world)"
    using authenticateToken_passes_only_verified
        [of demo_platform "demo_request\<lparr>req_authorization := None\<rparr>" demo_world,
         THEN c2, THEN c2, THEN c2, THEN conjunct1]
    by (simp add: bearerToken_def falsy_string_def access_token_required_def)
  have p: "protected_route demo_platform (demo_request\<lparr>req_authorization := None\<rparr>) demo_world =
     (\<lparr>status = 401,
      body = JObj [(''error'', JStr ''Access token required''),
                   (''message'', JStr ''Please provide a valid authentication token'')]\<rparr>,
      demo_world)"
    using authenticateToken_passes_only_verified
        [of demo_platform "demo_request\<lparr>req_authorization := None\<rparr>" demo_world _ demo_world
          "\<lparr>status = 401,
      body = JObj [(''error'', JStr ''Access token required''),
                   (''message'', JStr ''Please provide a valid authentication token'')]\<rparr>",
         THEN c2, THEN c2, THEN conjunct1, THEN mp, OF no]
    by (rule conjunct1)
  from p have p': "fst (protected_route demo_platform (demo_request\<lparr>req_authorization := None\<rparr>) demo_world) =
     \<lparr>status = 401,
      body = JObj [(''error'', JStr ''Access token required''),
                   (''message'', JStr ''Please provide a valid authentication token'')]\<rparr>"
    by simp
  have bad: "authenticateToken demo_platform (demo_request\<lparr>req_authorization := Some ''Bearer bad''\<rparr>) demo_world =
     (Respond \<lparr>status = 401,
      body = JObj [(''error'', JStr ''Invalid token''),
                   (''message'', JStr ''The provided token is invalid'')]\<rparr>,
      demo_world)"
    using authenticateToken_passes_only_verified
        [of demo_platform "demo_request\<lparr>req_authorization := Some ''Bearer bad''\<rparr>" demo_world _ _ _
          "''bad''" "JsonWebTokenError ''invalid signature''",
         THEN c2, THEN c2, THEN c2, THEN c2, THEN conjunct1, THEN mp,
         OF conjI [OF demo_bearerToken_bad conjI [OF ne(2) demo_jwt_verify_bad]]]
    by (simp add: JsonWebTokenError_def invalid_token_def)
  have r1: "next_rejected (demo_world\<lparr>faults := [True]\<rparr>)"
    by (simp add: next_rejected_def)
  have q1: "fst (authenticateToken demo_platform demo_request (demo_world\<lparr>faults := [True]\<rparr>)) =
     Respond \<lparr>status = 500,
      body = JObj [(''error'', JStr ''Authentication failed''),
                   (''message'', JStr ''An error occurred during authentication'')]\<rparr>"
    using authenticateToken_passes_only_verified
        [of demo_platform demo_request "demo_world\<lparr>faults := [True]\<rparr>" _ _ _
          "''token-1.4738''" _
          "\<lparr>p_userId = Some 1, p_telegramId = Some 42, p_username = None,
          p_firstName = Some ''Ann'', p_lastName = None, p_isPremium = Some False\<rparr>",
         THEN c2, THEN c2, THEN c2, THEN c2, THEN c2, THEN conjunct1, THEN mp,
         OF conjI [OF demo_bearerToken conjI [OF ne(1) conjI [OF demo_jwt_verify_ok r1]]]]
    by (simp add: authentication_failed_def)
  have r2: "\<not> next_rejected (demo_world\<lparr>users := []\<rparr>)"
    "\<forall>u \<in> set (users (demo_world\<lparr>users := []\<rparr>)). Some (u_id u) \<noteq>
       p_userId \<lparr>p_userId = Some 1, p_telegramId = Some 42, p_username = None,
          p_firstName = Some ''Ann'', p_lastName = None, p_isPremium = Some False\<rparr>"
    by (simp_all add: next_rejected_def demo_world_simps)
  have nu: "fst (authenticateToken demo_platform demo_request (demo_world\<lparr>users := []\<rparr>)) =
     Respond \<lparr>status = 401,
      body = JObj [(''error'', JStr ''User not found''),
                   (''message'', JStr ''The user associated with this token no longer exists'')]\<rparr>"
    using authenticateToken_passes_only_verified
        [of demo_platform demo_request "demo_world\<lparr>users := []\<rparr>" _ _ _
          "''token-1.4738''" _
          "\<lparr>p_userId = Some 1, p_telegramId = Some 42, p_username = None,
          p_firstName = Some ''Ann'', p_lastName = None, p_isPremium = Some False\<rparr>",
         THEN c2, THEN c2, THEN c2, THEN c2, THEN c2, THEN c2, THEN conjunct1, THEN mp,
         OF conjI [OF demo_bearerToken conjI [OF ne(1) conjI [OF demo_jwt_verify_ok conjI [OF r2]]]]]
    by (simp add: user_not_found_def)
  have r3: "\<not> next_rejected (demo_world\<lparr>faults := [False, True]\<rparr>)"
    "\<exists>u \<in> set (users (demo_world\<lparr>faults := [False, True]\<rparr>)). Some (u_id u) =
       p_userId \<lparr>p_userId = Some 1, p_telegramId = Some 42, p_username = None,
          p_firstName = Some ''Ann'', p_lastName = None, p_isPremium = Some False\<rparr>"
    "next_rejected (demo_world\<lparr>faults := [False, True]\<rparr>
       \<lparr>faults := tl (faults (demo_world\<lparr>faults := [False, True]\<rparr>))\<rparr>)"
    by (simp_all add: next_rejected_def demo_world_simps demo_user_def)
  have q2: "fst (authenticateToken demo_platform demo_request (demo_world\<lparr>faults := [False, True]\<rparr>)) =
     Respond \<lparr>status = 500,
      body = JObj [(''error'', JStr ''Authentication failed''),
                   (''message'', JStr ''An error occurred during authentication'')]\<rparr>"
    using authenticateToken_passes_only_verified
        [of demo_platform demo_request "demo_world\<lparr>faults := [False, True]\<rparr>" _ _ _
          "''token-1.4738''" _
          "\<lparr>p_userId = Some 1, p_telegramId = Some 42, p_username = None,
          p_firstName = Some ''Ann'', p_lastName = None, p_isPremium = Some False\<rparr>",
         THEN c2, THEN c2, THEN c2, THEN c2, THEN c2, THEN c2, THEN c2, THEN conjunct1, THEN mp,
         OF conjI [OF demo_bearerToken conjI [OF ne(1) conjI [OF demo_jwt_verify_ok
            conjI [OF r3(1) conjI [OF r3(2) r3(3)]]]]]]
    by (simp add: authentication_failed_def)
  have r4: "\<not> next_rejected (demo_world\<lparr>NOW := 1700000300000\<rparr>)"
    "\<exists>u \<in> set (users (demo_world\<lparr>NOW := 1700000300000\<rparr>)). Some (u_id u) =
       p_userId \<lparr>p_userId = Some 1, p_telegramId = Some 42, p_username = None,
          p_firstName = Some ''Ann'', p_lastName = None, p_isPremium = Some False\<rparr>"
    "\<not> next_rejected (demo_world\<lparr>NOW := 1700000300000\<rparr>
       \<lparr>faults := tl (faults (demo_world\<lparr>NOW := 1700000300000\<rparr>))\<rparr>)"
    "\<not> (\<exists>s \<in> set (sessions (demo_world\<lparr>NOW := 1700000300000\<rparr>)).
         \<exists>u \<in> set (users (demo_world\<lparr>NOW := 1700000300000\<rparr>)).
        s_user_id s = u_id u \<and> s_token_hash s = toHex (sha256 demo_platform ''token-1.4738'') \<and>
        s_is_active s \<and> NOW (demo_world\<lparr>NOW := 1700000300000\<rparr>) < s_expires_at s)"
    by (simp_all add: next_rejected_def demo_world_simps demo_user_def demo_sha256
        demo_session_live_def demo_session_expired_def)
  have se: "fst (authenticateToken demo_platform demo_request (demo_world\<lparr>NOW := 1700000300000\<rparr>)) =
     Respond \<lparr>status = 401,
      body = JObj [(''error'', JStr ''Session expired''),
                   (''message'', JStr ''Your session has expired. Please login again'')]\<rparr>"
    using authenticateToken_passes_only_verified
        [of demo_platform demo_request "demo_world\<lparr>NOW := 1700000300000\<rparr>" _ _ _
          "''token-1.4738''" _
          "\<lparr>p_userId = Some 1, p_telegramId = Some 42, p_username = None,
          p_firstName = Some ''Ann'', p_lastName = None, p_isPremium = Some False\<rparr>",
         THEN c2, THEN c2, THEN c2, THEN c2, THEN c2, THEN c2, THEN c2, THEN c2, THEN conjunct1, THEN mp,
         OF conjI [OF demo_bearerToken conjI [OF ne(1) conjI [OF demo_jwt_verify_ok
            conjI [OF r4(1) conjI [OF r4(2) conjI [OF r4(3) r4(4)]]]]]]]
    by (simp add: session_expired_def)
  have r5: "\<not> next_rejected demo_world"
    "\<exists>u \<in> set (users demo_world). Some (u_id u) =
       p_userId \<lparr>p_userId = Some 1, p_telegramId = Some 42, p_username = None,
          p_firstName = Some ''Ann'', p_lastName = None, p_isPremium = Some False\<rparr>"
    "\<not> next_rejected (demo_world\<lparr>faults := tl (faults demo_world)\<rparr>)"
    "\<exists>s \<in> set (sessions demo_world). \<exists>u \<in> set (users demo_world).
        s_user_id s = u_id u \<and> s_token_hash s = toHex (sha256 demo_platform ''token-1.4738'') \<and>
        s_is_active s \<and> NOW demo_world < s_expires_at s"
    by (simp_all add: next_rejected_def demo_world_simps demo_user_def demo_sha256
        demo_session_live_def demo_session_expired_def)
  have nx: "\<exists>a. fst (authenticateToken demo_platform demo_request demo_world) = Next a"
    by (rule authenticateToken_passes_only_verified
        [of demo_platform demo_request demo_world _ _ _
          "''token-1.4738''" _
          "\<lparr>p_userId = Some 1, p_telegramId = Some 42, p_username = None,
          p_firstName = Some ''Ann'', p_lastName = None, p_isPremium = Some False\<rparr>",
         THEN c2, THEN c2, THEN c2, THEN c2, THEN c2, THEN c2, THEN c2, THEN c2, THEN c2,
         THEN conjunct1, THEN mp,
         OF conjI [OF demo_bearerToken conjI [OF ne(1) conjI [OF demo_jwt_verify_ok
            conjI [OF r5(1) conjI [OF r5(2) conjI [OF r5(3) r5(4)]]]]]]])
  show ?thesis
    by (intro conjI demo_authenticated e no p' bad q1 nu q2 se nx)
qed

subsection \<open>Activity logging and the routes\<close>

lemma logActivity_returns: "fst (logActivity userId action details ipAddress userAgent w) = Inr ()"
  by (simp add: logActivity_def split: prod.splits sum.splits)

lemma logActivity_result:
  "logActivity userId action details ipAddress userAgent w =
     (Inr (), snd (logActivity userId action details ipAddress userAgent w))"
  using logActivity_returns [of userId action details ipAddress userAgent w]
  by (cases "logActivity userId action details ipAddress userAgent w") simp

lemma logActivity_rejected:
  "next_rejected w \<Longrightarrow>
   user_activity (snd (logActivity userId action details ipAddress userAgent w)) = user_activity w"
  by (simp add: logActivity_def pool_query_def)

lemma protected_handler_status: "status (fst (protected_handler P req a w)) = 200"
  by (subst protected_handler_def, subst logActivity_result) simp

lemma logout_handler_status:
  "invalidateSession (req_tokenHash a) w = (Inr True, w1) \<Longrightarrow>
   status (fst (logout_handler P req a w)) = 200"
  by (subst logout_handler_def, simp, subst logActivity_result) simp


lemma isValid_iff:
  "isValid (validateInitData P (Some s)) \<longleftrightarrow> hashComparisonSucceeds P s \<and> userFieldsValid P s"
  by (auto simp: validateInitData_def validateInitData_try_def hashComparisonSucceeds_def
      userFieldsValid_def parseUserData_def URLSearchParams_get_delete Let_def falsy_string_def
      split: option.splits if_splits)

lemma valid_user:
  "isValid (validateInitData P (Some s)) \<Longrightarrow>
   v_user (validateInitData P (Some s)) =
     Some (parseUserData (URLSearchParams_delete (urlSearchParams P s) ''hash''))"
  by (auto simp: validateInitData_def validateInitData_try_def Let_def
      split: option.splits if_splits)

lemma status_simps:
  "status internal_server_error = 500"
  by (simp add: internal_server_error_def)

lemma login_accepts_iff:
  "status (fst (login P req w)) = 200 \<longleftrightarrow>
     (\<exists>s telegramData user w1 payload token created w2.
        req_body_initData req = Some s \<and> s \<noteq> [] \<and>
        isValid (validateInitData P (Some s)) \<and> isInitDataRecent P s (Date_now w) \<and>
        v_user (validateInitData P (Some s)) = Some telegramData \<and>
        upsertUser telegramData w = (Inr user, w1) \<and> createUserPayload user = Inr payload \<and>
        generateToken P payload (Date_now w1) = Inr token \<and>
        createSession (row_id (the user)) (hashToken P token)
          (Date_now w1 + 7 * 24 * 60 * 60 * 1000) w1 = (Inr created, w2))"
proof (cases "req_body_initData req")
  case None
  then show ?thesis by (simp add: login_def login_try_def falsy_string_def)
next
  case (Some s)
  note s = Some
  show ?thesis
  proof (cases "s \<noteq> [] \<and> isValid (validateInitData P (Some s)) \<and> isInitDataRecent P s (Date_now w)")
    case False
    with s show ?thesis by (auto simp: login_def login_try_def falsy_string_def Let_def)
  next
    case True
    then obtain td where td: "v_user (validateInitData P (Some s)) = Some td"
      using valid_user by blast
    obtain ru w1 where up: "upsertUser td w = (ru, w1)" by (cases "upsertUser td w")
    show ?thesis
    proof (cases ru)
      case (Inl err)
      with s True td up show ?thesis
        by (simp add: login_def login_try_def falsy_string_def Let_def status_simps)
    next
      case (Inr user)
      note user = Inr
      show ?thesis
      proof (cases "createUserPayload user")
        case (Inl err)
        with s True td up user show ?thesis
          by (simp add: login_def login_try_def falsy_string_def Let_def status_simps)
      next
        case (Inr payload)
        note payload = Inr
        show ?thesis
        proof (cases "generateToken P payload (Date_now w1)")
          case (Inl err)
          with s True td up user payload show ?thesis
            by (simp add: login_def login_try_def falsy_string_def Let_def status_simps)
        next
          case (Inr token)
          note token = Inr
          obtain rc w2 where cs: "createSession (row_id (the user)) (hashToken P token)
              (Date_now w1 + 7 * 24 * 60 * 60 * 1000) w1 = (rc, w2)"
            by (cases "createSession (row_id (the user)) (hashToken P token)
              (Date_now w1 + 7 * 24 * 60 * 60 * 1000) w1")
          show ?thesis
          proof (cases rc)
            case (Inl err)
            with s True td up user payload token cs show ?thesis
              by (simp add: login_def login_try_def falsy_string_def Let_def status_simps)
          next
            case (Inr created)
            obtain w3 where lg: "logActivity (row_id (the user)) ''login'' [(''method'', ''telegram_webapp'')]
                        (req_ip req) (req_user_agent req) w2 = (Inr (), w3)"
              using logActivity_result by blast
            from s True td up user payload token cs Inr lg show ?thesis
              by (simp add: login_def login_try_def falsy_string_def Let_def status_simps)
          qed
        qed
      qed
    qed
  qed
qed


lemma upsertUser_Inr:
  assumes "upsertUser td w = (Inr user, w1)"
  shows "(\<exists>u. user = Some (UserRow u)) \<and> faults w1 = tl (faults w) \<and> Date_now w1 = Date_now w \<and>
         \<not> next_rejected w"
proof -
  from assms obtain tid where tid: "ud_id td = Some tid" and ok: "\<not> next_rejected w"
    by (cases "ud_id td") (auto simp: upsertUser_cases split: if_splits)
  let ?P = "\<lambda>u. u_telegram_id u = tid"
  show ?thesis
  proof (cases "list_ex ?P (users w)")
    case True
    then have ne: "filter ?P (users w) \<noteq> []" by (simp add: list_ex_filter)
    from assms tid ok True
    have "user = Array_at (map UserRow (map (overwrite td (NOW w)) (filter ?P (users w)))) 0"
      and "faults w1 = tl (faults w)" and "Date_now w1 = Date_now w"
      by (auto simp: upsertUser_cases filter_overwritten)
    with ne ok show ?thesis by (simp add: Array_at_map_0)
  next
    case False
    with assms tid ok show ?thesis by (auto simp: upsertUser_cases)
  qed
qed

lemma createSession_cases:
  "createSession (Some uid) h e w =
     (if next_rejected w
      then (Inl pg_error, w\<lparr>sent := sent w @ [(createSession_query, [SqlInt uid, SqlText h, SqlTimestamp e])],
                            faults := tl (faults w)\<rparr>)
      else (Inr (Some (SessionRow \<lparr>s_id = sessions_id_seq w, s_user_id = uid, s_token_hash = h,
                                  s_expires_at = e, s_created_at = NOW w, s_is_active = True\<rparr>)),
            w\<lparr>sent := sent w @ [(createSession_query, [SqlInt uid, SqlText h, SqlTimestamp e])],
              faults := tl (faults w),
              sessions := sessions w @ [\<lparr>s_id = sessions_id_seq w, s_user_id = uid, s_token_hash = h,
                                  s_expires_at = e, s_created_at = NOW w, s_is_active = True\<rparr>],
              sessions_id_seq := sessions_id_seq w + 1\<rparr>))"
  by (simp add: createSession_def pool_query_def execute_simps exec_createSession_def param_simps
      Let_def Array_at_def)

lemma createSession_returns_iff:
  "(\<exists>created w2. createSession (row_id (UserRow u)) h e w = (Inr created, w2)) \<longleftrightarrow> \<not> next_rejected w"
  by (simp add: createSession_cases)

lemma login_accepts_iff_checks:
  "status (fst (login P req w)) = 200 \<longleftrightarrow>
    (\<exists>s user w1 payload token.
       req_body_initData req = Some s \<and> hashComparisonSucceeds P s \<and> userFieldsValid P s \<and>
       isInitDataRecent P s (Date_now w) \<and>
       upsertUser (parseUserData (URLSearchParams_delete (urlSearchParams P s) ''hash'')) w = (Inr user, w1) \<and>
       createUserPayload user = Inr payload \<and> generateToken P payload (Date_now w) = Inr token \<and>
       \<not> next_rejected w1)"
  (is "?L \<longleftrightarrow> ?R")
proof
  assume ?L
  then obtain s telegramData user w1 payload token created w2 where
    b: "req_body_initData req = Some s" and v: "isValid (validateInitData P (Some s))"
    and r: "isInitDataRecent P s (Date_now w)"
    and td: "v_user (validateInitData P (Some s)) = Some telegramData"
    and up: "upsertUser telegramData w = (Inr user, w1)"
    and pl: "createUserPayload user = Inr payload"
    and tk: "generateToken P payload (Date_now w1) = Inr token"
    and cs: "createSession (row_id (the user)) (hashToken P token)
          (Date_now w1 + 7 * 24 * 60 * 60 * 1000) w1 = (Inr created, w2)"
    unfolding login_accepts_iff by blast
  from valid_user [OF v] td
  have td': "telegramData = parseUserData (URLSearchParams_delete (urlSearchParams P s) ''hash'')" by simp
  from upsertUser_Inr [OF up] obtain u where u: "user = Some (UserRow u)"
    and dn: "Date_now w1 = Date_now w" by blast
  from cs u have "\<not> next_rejected w1"
    using createSession_returns_iff [of u "hashToken P token" "Date_now w1 + 7 * 24 * 60 * 60 * 1000" w1]
    by auto
  with b v r up pl tk dn td' show ?R
    unfolding isValid_iff by auto
next
  assume ?R
  then obtain s user w1 payload token where
    b: "req_body_initData req = Some s" and h: "hashComparisonSucceeds P s" and f: "userFieldsValid P s"
    and r: "isInitDataRecent P s (Date_now w)"
    and up: "upsertUser (parseUserData (URLSearchParams_delete (urlSearchParams P s) ''hash'')) w = (Inr user, w1)"
    and pl: "createUserPayload user = Inr payload"
    and tk: "generateToken P payload (Date_now w) = Inr token"
    and nr: "\<not> next_rejected w1"
    by blast
  from h f have v: "isValid (validateInitData P (Some s))" by (simp add: isValid_iff)
  from h have ne: "s \<noteq> []" by (simp add: hashComparisonSucceeds_def)
  from upsertUser_Inr [OF up] obtain u where u: "user = Some (UserRow u)"
    and dn: "Date_now w1 = Date_now w" by blast
  from nr obtain created w2 where
    cs: "createSession (row_id (UserRow u)) (hashToken P token)
          (Date_now w1 + 7 * 24 * 60 * 60 * 1000) w1 = (Inr created, w2)"
    using createSession_returns_iff [of u "hashToken P token" "Date_now w1 + 7 * 24 * 60 * 60 * 1000" w1]
    by blast
  show ?L
    unfolding login_accepts_iff
    using b ne v r valid_user [OF v] up pl tk cs u dn by auto
qed


lemma demo_recent:
  "isInitDataRecent demo_platform ''user.id=42&auth_date=1700000000&user.first_name=Ann&hash=7c7a''
     1700000100000"
  by (simp add: isInitDataRecent_def demo_platform_simps demo_parse demo_parseInt)

lemma demo_userData:
  "parseUserData [(''user.id'', ''42''), (''auth_date'', ''1700000000''), (''user.first_name'', ''Ann'')] =
     \<lparr>ud_id = Some 42, ud_first_name = Some ''Ann'', ud_last_name = None, ud_username = None,
      ud_language_code = None, ud_is_premium = False, ud_allows_write_to_pm = False\<rparr>"
  by (simp add: parseUserData_def demo_parseInt)

lemma demo_generateToken:
  "generateToken demo_platform
     \<lparr>p_userId = Some 1, p_telegramId = Some 42, p_username = None, p_firstName = Some ''Ann'',
      p_lastName = None, p_isPremium = Some False\<rparr> now = Inr ''token-1.4738''"
  using demo_signature
  by (simp add: generateToken_def demo_platform_simps demo_jwt_sign_def)

lemma demo_login_world:
  "login demo_platform demo_login_request (demo_world\<lparr>faults := [False, False, True]\<rparr>) =
     (\<lparr>status = 200,
       body = JObj [(''success'', JBool True), (''message'', JStr ''Authentication successful''),
                    (''token'', JStr ''token-1.4738''),
                    (''user'', JObj [(''id'', JNum 1), (''telegramId'', JNum 42), (''username'', JNull),
                                    (''firstName'', JStr ''Ann''), (''lastName'', JNull),
                                    (''isPremium'', JBool False)])]\<rparr>,
      snd (login demo_platform demo_login_request (demo_world\<lparr>faults := [False, False, True]\<rparr>)))"
  using demo_valid
  by (simp add: login_def login_try_def demo_login_request_def falsy_string_def Let_def
      valid_user demo_platform_simps demo_parse URLSearchParams_delete_def demo_userData
      demo_recent [unfolded demo_platform_simps] demo_world_simps
      upsertUser_cases next_rejected_def demo_user_def overwrite_def Array_at_def
      createUserPayload_def demo_generateToken demo_hashToken createSession_cases
      logActivity_def pool_query_def user_json_def json_num_def json_str_def json_bool_def)


lemma demo_login_logging_rejected:
  "user_activity (snd (login demo_platform demo_login_request (demo_world\<lparr>faults := [False, False, True]\<rparr>))) = []"
  using demo_valid
  by (simp add: login_def login_try_def demo_login_request_def falsy_string_def Let_def
      valid_user demo_platform_simps demo_parse URLSearchParams_delete_def demo_userData
      demo_recent [unfolded demo_platform_simps] demo_world_simps
      upsertUser_cases next_rejected_def demo_user_def overwrite_def Array_at_def
      createUserPayload_def demo_generateToken demo_hashToken createSession_cases
      logActivity_def pool_query_def)

text \<open>
  C10. \<open>logActivity\<close> returns normally for every input and every state of the
  database connection; when its insert is rejected the \<open>user_activity\<close> table is as
  before. So the handler of the protected route always responds 200, the logout
  handler responds 200 whenever \<open>invalidateSession\<close> returned, and login responds
  200 whenever the checks of the init data, the upsert, the signing of the token and
  the insert of the session succeeded: what the insert of the activity does is no
  condition of any of them.
\<close>

theorem logActivity_swallows_errors:
  "fst (logActivity userId action details ipAddress userAgent w) = Inr () \<and>
   (next_rejected w \<longrightarrow>
      user_activity (snd (logActivity userId action details ipAddress userAgent w)) = user_activity w) \<and>
   status (fst (protected_handler P req a w)) = 200 \<and>
   (invalidateSession (req_tokenHash a) w = (Inr True, w1) \<longrightarrow>
      status (fst (logout_handler P req a w)) = 200) \<and>
   ((\<exists>s user w1 payload token.
       req_body_initData req = Some s \<and> hashComparisonSucceeds P s \<and> userFieldsValid P s \<and>
       isInitDataRecent P s (Date_now w) \<and>
       upsertUser (parseUserData (URLSearchParams_delete (urlSearchParams P s) ''hash'')) w = (Inr user, w1) \<and>
       createUserPayload user = Inr payload \<and> generateToken P payload (Date_now w) = Inr token \<and>
       \<not> next_rejected w1) \<longrightarrow>
      status (fst (login P req w)) = 200)"
proof (intro conjI impI)
  show "fst (logActivity userId action details ipAddress userAgent w) = Inr ()"
    by (rule logActivity_returns)
next
  assume "next_rejected w"
  then show "user_activity (snd (logActivity userId action details ipAddress userAgent w)) = user_activity w"
    by (rule logActivity_rejected)
next
  show "status (fst (protected_handler P req a w)) = 200"
    by (rule protected_handler_status)
next
  assume "invalidateSession (req_tokenHash a) w = (Inr True, w1)"
  then show "status (fst (logout_handler P req a w)) = 200"
    by (rule logout_handler_status)
next
  assume "\<exists>s user w1 payload token.
       req_body_initData req = Some s \<and> hashComparisonSucceeds P s \<and> userFieldsValid P s \<and>
       isInitDataRecent P s (Date_now w) \<and>
       upsertUser (parseUserData (URLSearchParams_delete (urlSearchParams P s) ''hash'')) w = (Inr user, w1) \<and>
       createUserPayload user = Inr payload \<and> generateToken P payload (Date_now w) = Inr token \<and>
       \<not> next_rejected w1"
  then show "status (fst (login P req w)) = 200"
    by (simp only: login_accepts_iff_checks)
qed

theorem logActivity_swallows_errors_witness:
  "next_rejected (demo_world\<lparr>faults := [True]\<rparr>) \<and>
   fst (logActivity (Some 1) ''login'' [(''method'', ''telegram_webapp'')] None None
          (demo_world\<lparr>faults := [True]\<rparr>)) = Inr () \<and>
   user_activity (snd (logActivity (Some 1) ''login'' [(''method'', ''telegram_webapp'')] None None
          (demo_world\<lparr>faults := [True]\<rparr>))) = [] \<and>
   invalidateSession ''8ba0'' demo_world = (Inr True, snd (invalidateSession ''8ba0'' demo_world)) \<and>
   status (fst (logout_handler demo_platform demo_request
      \<lparr>req_user = UserRow demo_user, req_session = SessionUserRow demo_session_live demo_user,
        req_tokenHash = ''8ba0''\<rparr> demo_world)) = 200 \<and>
   status (fst (login demo_platform demo_login_request (demo_world\<lparr>faults := [False, False, True]\<rparr>))) = 200 \<and>
   user_activity (snd (login demo_platform demo_login_request (demo_world\<lparr>faults := [False, False, True]\<rparr>))) = []"
proof -
  let ?w = "demo_world\<lparr>faults := [True]\<rparr>"
  let ?a = "\<lparr>req_user = UserRow demo_user, req_session = SessionUserRow demo_session_live demo_user,
        req_tokenHash = ''8ba0''\<rparr>"
  let ?w3 = "demo_world\<lparr>faults := [False, False, True]\<rparr>"
  have rej: "next_rejected ?w" by (simp add: next_rejected_def)
  have inv: "invalidateSession (req_tokenHash ?a) demo_world = (Inr True, snd (invalidateSession ''8ba0'' demo_world))"
    by (simp add: invalidateSession_cases demo_world_simps)
  have "status (fst (login demo_platform demo_login_request ?w3)) = 200"
    by (subst demo_login_world) simp
  then have ex: "\<exists>s user w1 payload token.
       req_body_initData demo_login_request = Some s \<and> hashComparisonSucceeds demo_platform s \<and>
       userFieldsValid demo_platform s \<and> isInitDataRecent demo_platform s (Date_now ?w3) \<and>
       upsertUser (parseUserData (URLSearchParams_delete (urlSearchParams demo_platform s) ''hash'')) ?w3 = (Inr user, w1) \<and>
       createUserPayload user = Inr payload \<and> generateToken demo_platform payload (Date_now ?w3) = Inr token \<and>
       \<not> next_rejected w1"
    by (simp only: login_accepts_iff_checks)
  note thm1 = logActivity_swallows_errors
      [of "Some 1" "''login''" "[(''method'', ''telegram_webapp'')]" None None ?w _ _ ?a]
  note thm2 = logActivity_swallows_errors
      [of _ _ _ _ _ demo_world demo_platform demo_request ?a "snd (invalidateSession ''8ba0'' demo_world)"]
  note thm3 = logActivity_swallows_errors [of _ _ _ _ _ ?w3 demo_platform demo_login_request]
  have a1: "fst (logActivity (Some 1) ''login'' [(''method'', ''telegram_webapp'')] None None ?w) = Inr ()"
    using thm1 by blast
  have a2: "user_activity (snd (logActivity (Some 1) ''login'' [(''method'', ''telegram_webapp'')] None None ?w)) = []"
    using thm1 rej by (simp add: demo_world_simps)
  have a3: "status (fst (logout_handler demo_platform demo_request ?a demo_world)) = 200"
    using thm2 inv by blast
  have a4: "status (fst (login demo_platform demo_login_request ?w3)) = 200"
    using thm3 ex by blast
  from inv have inv': "invalidateSession ''8ba0'' demo_world = (Inr True, snd (invalidateSession ''8ba0'' demo_world))"
    by simp
  show ?thesis
    by (intro conjI rej a1 a2 inv' a3 a4 demo_login_logging_rejected)
qed


subsection \<open>What decides a login\<close>










end
